theory Spec2Isabelle
  imports Complex_Main "HOL-Library.Word"
begin

section \<open>Conventions of the embedding\<close>

text \<open>
  The portfolio page is written in TypeScript. Its numbers are IEEE doubles. The
  embedding reads the pixel quantities, scroll offsets and zoom factors of the handlers
  as exact reals (no rounding), which is exact for the zoom steps (multiples of 0.25)
  and an idealisation for the quotients of the scrollbar geometry. The render run is
  read more closely: it rounds the canvas size down to whole pixels (\<open>Math.floor\<close>),
  and which integer that gives depends on the rounding of the quotient and the products
  before it, so these are the rounded operations of the next section. A quotient whose
  divisor is zero is not a finite number in the program (an infinity or NaN);
  \<open>js_div\<close> returns \<open>None\<close> there and a function that meets such a quotient
  returns \<open>None\<close>: the embedding does not follow the computation beyond that point.

  Integers that index arrays or name character codes are \<open>nat\<close> and \<open>int\<close>; a
  string is the list of its UTF-16 code units, each a \<open>16 word\<close>.

  A name of the source that starts with an underscore is written with the prefix
  \<open>u_\<close> (\<open>_k\<close> is \<open>u_k\<close>). Where two components declare a function of the same name,
  the component's name is put in front (\<open>PdfViewer_updateScrollbar\<close>,
  \<open>CustomScrollbar_updateScrollbar\<close>).
\<close>

definition js_div :: "real \<Rightarrow> real \<Rightarrow> real option" where
  "js_div a b = (if b = 0 then None else Some (a / b))"


section \<open>Double arithmetic\<close>

text \<open>
  A double of the normal range is \<open>m * 2^(e - 52)\<close> for integers \<open>m\<close> and \<open>e\<close> with
  \<open>2^52 \<le> |m| < 2^53\<close> and \<open>-1022 \<le> e \<le> 1023\<close>; every arithmetic operation of the
  program gives the double nearest to the exact result, the one with the even \<open>m\<close>
  when two are equally near. \<open>exponent x\<close> is the \<open>e\<close> with
  \<open>2^e \<le> |x| < 2^(e + 1)\<close>, found by stepping up from 0 or down from -1, and
  \<open>to_double x\<close> is the rounding of \<open>x\<close>. Below \<open>2^-1022\<close> (zero and the
  subnormal numbers) and from \<open>2^1024\<close> on (where the program gets an infinity) the
  rounding is not modelled and \<open>to_double\<close> returns its argument.
\<close>

definition pow2 :: "int \<Rightarrow> real" where
  "pow2 e = (if 0 \<le> e then 2 ^ nat e else 1 / 2 ^ nat (- e))"

function binade_up :: "real \<Rightarrow> nat \<Rightarrow> nat" where
  "binade_up x e = (if 1023 \<le> e \<or> x < 2 ^ (e + 1) then e else binade_up x (e + 1))"
  by pat_completeness auto
termination
  by (relation "measure (\<lambda>(x, e). 1023 - e)") auto

function binade_down :: "real \<Rightarrow> nat \<Rightarrow> nat" where
  "binade_down x k = (if 1022 \<le> k \<or> 1 \<le> x * 2 ^ k then k else binade_down x (k + 1))"
  by pat_completeness auto
termination
  by (relation "measure (\<lambda>(x, k). 1022 - k)") auto

declare binade_up.simps [simp del] binade_down.simps [simp del]

definition exponent :: "real \<Rightarrow> int" where
  "exponent x = (if 1 \<le> \<bar>x\<bar> then int (binade_up \<bar>x\<bar> 0) else - int (binade_down \<bar>x\<bar> 1))"

definition round_half_even :: "real \<Rightarrow> int" where
  "round_half_even m =
     (let n = \<lfloor>m\<rfloor>; r = m - of_int n
      in if r < 1 / 2 then n else if 1 / 2 < r then n + 1 else if even n then n else n + 1)"

definition to_double :: "real \<Rightarrow> real" where
  "to_double x =
     (if \<bar>x\<bar> < pow2 (- 1022) \<or> pow2 1024 \<le> \<bar>x\<bar> then x
      else let ulp = pow2 (exponent x - 52)
           in of_int (round_half_even (x / ulp)) * ulp)"

text \<open>The product and the quotient of two doubles, as the program computes them.\<close>

definition double_times :: "real \<Rightarrow> real \<Rightarrow> real" where
  "double_times a b = to_double (a * b)"

definition double_div :: "real \<Rightarrow> real \<Rightarrow> real option" where
  "double_div a b = map_option to_double (js_div a b)"


section \<open>Contact decoding (App.tsx)\<close>

type_synonym code_unit = "16 word"
type_synonym js_string = "code_unit list"

text \<open>A string literal of the source (ASCII), as its code units.\<close>

definition js :: "string \<Rightarrow> js_string" where
  "js s = map of_char s"

text \<open>
  \<open>s[i]\<close>: the one-unit string at index \<open>i\<close>, or \<open>undefined\<close>, which the
  concatenation with \<open>+\<close> turns into the text "undefined".
\<close>

definition char_at :: "js_string \<Rightarrow> nat \<Rightarrow> js_string" where
  "char_at s i = (if i < length s then [s ! i] else js ''undefined'')"

text \<open>
  \<open>s.charCodeAt(i)\<close> for an index inside the string. The source calls it at
  \<open>i % _k.length\<close> on the key and at \<open>0\<close> on a one-unit string only.
\<close>

definition charCodeAt :: "js_string \<Rightarrow> nat \<Rightarrow> int" where
  "charCodeAt s i = uint (s ! i)"

text \<open>\<open>String.fromCharCode(n)\<close> for an integer \<open>n\<close>: the unit \<open>n\<close> modulo \<open>2^16\<close>.\<close>

definition fromCharCode :: "int \<Rightarrow> js_string" where
  "fromCharCode n = [word_of_int n]"

definition u_css1 :: js_string where "u_css1 = js ''visibility''"
definition u_css2 :: js_string where "u_css2 = js ''Keyframes''"
definition u_attr :: js_string where "u_attr = js ''9rem''"
definition u_prop :: js_string where "u_prop = js ''boxShadow''"
definition u_anim :: js_string where "u_anim = js ''Quantum''"
definition u_unit :: js_string where "u_unit = js ''2px''"
definition u_mode :: js_string where "u_mode = js ''maxHeight''"

definition u_k :: js_string where
  "u_k = char_at u_css1 0 @ char_at u_css2 0 @ char_at u_attr 0 @ char_at u_prop 2 @
         char_at u_anim 0 @ char_at u_unit 0 @ char_at u_mode 0"

text \<open>
  The shift of index \<open>i\<close>, written inline in both \<open>decode\<close> and \<open>encode\<close>:
  \<open>(_k.charCodeAt(i % _k.length) % 13) + 1\<close>. Both operands of each \<open>%\<close> are
  non-negative, where the remainder of the program and \<open>mod\<close> agree.
\<close>

definition shift :: "nat \<Rightarrow> int" where
  "shift i = charCodeAt u_k (i mod length u_k) mod 13 + 1"

text \<open>
  \<open>codes.map((code, i) => String.fromCharCode(code - shift)).join("")\<close>. The codes
  are integers. A double holds an integer exactly up to \<open>2^53\<close> in absolute value, so
  for codes up to \<open>2^53 - 13\<close> the difference \<open>code - shift\<close> of the program is the
  difference of the integers; beyond, the program's difference is rounded, which the
  difference of \<open>int\<close> is not, and the theorem on the character codes keeps within
  the bound.
\<close>

definition decode :: "int list \<Rightarrow> js_string" where
  "decode codes =
     concat (map (\<lambda>(i, code). fromCharCode (code - shift i)) (enumerate 0 codes))"

text \<open>
  The encoder of the obfuscation reference:
  \<open>str.split('').map((c, i) => c.charCodeAt(0) + shift)\<close>.
\<close>

definition split_units :: "js_string \<Rightarrow> js_string list" where
  "split_units str = map (\<lambda>c. [c]) str"

definition encode :: "js_string \<Rightarrow> int list" where
  "encode str =
     map (\<lambda>(i, c). charCodeAt c 0 + shift i) (enumerate 0 (split_units str))"

text \<open>The printable ASCII range, codes 32 to 126.\<close>

definition printable :: "code_unit \<Rightarrow> bool" where
  "printable c = (32 \<le> uint c \<and> uint c \<le> 126)"


section \<open>Zoom (PdfViewer.tsx)\<close>

text \<open>The updater functions handed to \<open>setZoom\<close> by the three buttons.\<close>

definition handleZoomIn :: "real \<Rightarrow> real" where
  "handleZoomIn z = min (z + 0.25) 2"

definition handleZoomOut :: "real \<Rightarrow> real" where
  "handleZoomOut z = max (z - 0.25) 1"

definition handleReset :: "real \<Rightarrow> real" where
  "handleReset z = 1"

datatype zoom_action = ZoomIn | ZoomOut | Reset

fun setZoom :: "real \<Rightarrow> zoom_action \<Rightarrow> real" where
  "setZoom z ZoomIn = handleZoomIn z"
| "setZoom z ZoomOut = handleZoomOut z"
| "setZoom z Reset = handleReset z"

text \<open>The zoom state after a sequence of button presses, from \<open>useState(1)\<close>.\<close>

definition zoom_after :: "zoom_action list \<Rightarrow> real" where
  "zoom_after acts = foldl setZoom 1 acts"

definition zoom_levels :: "real set" where
  "zoom_levels = {1, 1.25, 1.5, 1.75, 2}"


section \<open>The DOM and the components' state\<close>

text \<open>
  The metrics of an HTML element that the handlers read and write. A write to
  \<open>scrollTop\<close> (or a \<open>window.scrollTo\<close>) is recorded as the value the handler
  passes; the browser's own clamping of a scroll position is not part of the program.
\<close>

record element =
  scrollHeight :: real
  clientHeight :: real
  scrollTop :: real
  scrollWidth :: real
  clientWidth :: real
  scrollLeft :: real

text \<open>
  The state and refs that both scrollbars keep: \<open>thumbHeight\<close>, \<open>thumbTop\<close> and
  \<open>isDragging\<close> are React state, \<open>dragStartY\<close> and \<open>dragStartScroll\<close> are refs.
\<close>

record thumb_drag =
  thumbHeight :: real
  thumbTop :: real
  isDragging :: bool
  dragStartY :: real
  dragStartScroll :: real

text \<open>A value that was thrown: an object, with its \<open>name\<close> property if it has one, or
  a value that is not an object (or is \<open>null\<close>).\<close>

datatype thrown = Object "string option" | Primitive

text \<open>
  What the canvas bitmap shows: nothing yet, the white fill alone, the white fill with a
  rasterisation at the given scale that did not complete, or page 1 rasterised at the
  given scale.
\<close>

datatype pixels = Blank | White | Unfinished real | Page real

record canvas =
  canvas_width :: int
  canvas_height :: int
  style_width :: "real option"
  style_height :: "real option"
  bitmap :: pixels

record viewport =
  vp_width :: real
  vp_height :: real

text \<open>
  pdf.js is outside the repository. A page is its \<open>getViewport({ scale })\<close>, a document
  is the outcome of its \<open>getPage(1)\<close>, a render task is a number that tells it
  from other tasks and the outcome of its \<open>cancel()\<close> (\<open>Some e\<close>: the call
  throws \<open>e\<close>).
\<close>

type_synonym pdf_page = "real \<Rightarrow> viewport"
type_synonym pdf_doc = "thrown + pdf_page"

record render_task =
  task_id :: nat
  cancel :: "thrown option"

text \<open>
  One PdfViewer instance: the shared thumb state, the \<open>zoom\<close> state, the refs, and the
  effects of a render run that leave the component: the errors written with
  \<open>console.error\<close>, the render tasks whose \<open>cancel()\<close> was called, and whether
  the 100 ms retry timer was set.
\<close>

record PdfViewer = thumb_drag +
  zoom :: real
  canvasRef :: "canvas option"
  containerRef :: "element option"
  scrollAreaRef :: "element option"
  baseScaleRef :: real
  renderTaskRef :: "render_task option"
  pdfDocRef :: "pdf_doc option"
  console_error :: "thrown list"
  cancel_calls :: "nat list"
  retry_timer :: bool

text \<open>
  The page as CustomScrollbar reads it: the document's scroll height, the window's inner
  height and scroll position, and the elements matching
  \<open>.grid-section, .index-section, .resume-section\<close> in document order, each with the
  top and bottom of its bounding client rect and whether its class list contains
  \<open>grid-section\<close>.
\<close>

record section_box =
  rect_top :: real
  rect_bottom :: real
  grid_section :: bool

record window =
  docHeight :: real
  innerHeight :: real
  scrollY :: real
  sections :: "section_box list"

record CustomScrollbar = thumb_drag +
  isLight :: bool
  isEdge :: bool

text \<open>The initial state of a CustomScrollbar: the arguments of its \<open>useState\<close> and
  \<open>useRef\<close> calls.\<close>

definition CustomScrollbar_initial :: CustomScrollbar where
  "CustomScrollbar_initial =
     \<lparr>thumbHeight = 0, thumbTop = 0, isDragging = False, dragStartY = 0,
      dragStartScroll = 0, isLight = True, isEdge = False\<rparr>"


section \<open>Thumb geometry\<close>

text \<open>\<open>updateScrollbar\<close> of PdfViewer.tsx.\<close>

definition PdfViewer_updateScrollbar :: "PdfViewer \<Rightarrow> PdfViewer option" where
  "PdfViewer_updateScrollbar st =
     (case scrollAreaRef st of
        None \<Rightarrow> Some st
      | Some scrollArea \<Rightarrow>
          (case js_div (clientHeight scrollArea) (scrollHeight scrollArea) of
             None \<Rightarrow> None
           | Some thumbPercent \<Rightarrow>
               let thumbPx = max (thumbPercent * clientHeight scrollArea) 40;
                   maxScroll = scrollHeight scrollArea - clientHeight scrollArea;
                   scrollPercent = (if maxScroll > 0 then scrollTop scrollArea / maxScroll else 0);
                   maxThumbTop = clientHeight scrollArea - thumbPx
               in Some (st\<lparr>thumbHeight := thumbPx, thumbTop := scrollPercent * maxThumbTop\<rparr>)))"

text \<open>
  \<open>updateScrollbar\<close> of CustomScrollbar.tsx. The function is created inside an effect
  with the dependency list \<open>[isEdge]\<close>; it reads \<open>isEdge\<close> and \<open>thumbTop\<close> from the
  render that ran the effect (\<open>closure\<close>) and writes through the state setters
  (\<open>st\<close>, the state the setters update).
\<close>

definition overlap :: "real \<Rightarrow> real \<Rightarrow> section_box \<Rightarrow> real" where
  "overlap thumbTopInViewport thumbBottomInViewport section =
     (let overlapTop = max thumbTopInViewport (rect_top section);
          overlapBottom = min thumbBottomInViewport (rect_bottom section)
      in max 0 (overlapBottom - overlapTop))"

text \<open>The \<open>sections.forEach\<close> loop, on the pair \<open>(darkPixels, lightPixels)\<close>.\<close>

fun forEach_section :: "real \<Rightarrow> real \<Rightarrow> section_box list \<Rightarrow> real \<times> real \<Rightarrow> real \<times> real" where
  "forEach_section t b [] (darkPixels, lightPixels) = (darkPixels, lightPixels)"
| "forEach_section t b (section # rest) (darkPixels, lightPixels) =
     (if grid_section section
      then forEach_section t b rest (darkPixels, lightPixels + overlap t b section)
      else forEach_section t b rest (darkPixels + overlap t b section, lightPixels))"

definition CustomScrollbar_updateScrollbar ::
  "CustomScrollbar \<Rightarrow> window \<Rightarrow> CustomScrollbar \<Rightarrow> CustomScrollbar option" where
  "CustomScrollbar_updateScrollbar closure w st =
     (let viewHeight = innerHeight w;
          trackPadding = (if isEdge closure then 10 else 4);
          trackHeight = viewHeight - trackPadding
      in case js_div viewHeight (docHeight w) of
           None \<Rightarrow> None
         | Some thumbPercent \<Rightarrow>
             let thumbPx = max (thumbPercent * trackHeight) 40;
                 maxScroll = docHeight w - viewHeight;
                 scrollPercent = (if maxScroll > 0 then scrollY w / maxScroll else 0);
                 maxThumbTop = trackHeight - thumbPx;
                 topPadding = (if isEdge closure then 5 else 2);
                 thumbTopInViewport = thumbTop closure + topPadding;
                 thumbBottomInViewport = thumbTopInViewport + thumbPx;
                 (darkPixels, lightPixels) =
                    forEach_section thumbTopInViewport thumbBottomInViewport (sections w) (0, 0);
                 totalOverlap = darkPixels + lightPixels
             in Some (st\<lparr>thumbHeight := thumbPx, thumbTop := scrollPercent * maxThumbTop,
                        isLight := (if totalOverlap > 0 then darkPixels / totalOverlap > 0.5
                                    else isLight st)\<rparr>))"

text \<open>The class of the rendered thumb, from the \<open>isLight\<close> state.\<close>

definition thumb_class :: "CustomScrollbar \<Rightarrow> string" where
  "thumb_class st = (if isLight st then ''on-light'' else ''on-dark'')"


section \<open>Dragging a thumb\<close>

text \<open>\<open>handleThumbMouseDown\<close> and \<open>handleMouseMove\<close> of PdfViewer.tsx, at a mouse
  event with the given \<open>clientY\<close>.\<close>

definition PdfViewer_handleThumbMouseDown :: "PdfViewer \<Rightarrow> real \<Rightarrow> PdfViewer" where
  "PdfViewer_handleThumbMouseDown st clientY =
     st\<lparr>isDragging := True, dragStartY := clientY,
        dragStartScroll := (case scrollAreaRef st of None \<Rightarrow> 0 | Some scrollArea \<Rightarrow> scrollTop scrollArea)\<rparr>"

definition PdfViewer_handleMouseMove :: "PdfViewer \<Rightarrow> real \<Rightarrow> PdfViewer option" where
  "PdfViewer_handleMouseMove st clientY =
     (if \<not> isDragging st then Some st
      else case scrollAreaRef st of
        None \<Rightarrow> Some st
      | Some scrollArea \<Rightarrow>
            let deltaY = clientY - dragStartY st;
                maxScroll = scrollHeight scrollArea - clientHeight scrollArea;
                maxThumbTop = clientHeight scrollArea - thumbHeight st
            in (case js_div deltaY maxThumbTop of
                  None \<Rightarrow> None
                | Some q \<Rightarrow>
                    Some (st\<lparr>scrollAreaRef :=
                      Some (scrollArea\<lparr>scrollTop := dragStartScroll st + q * maxScroll\<rparr>)\<rparr>)))"

text \<open>\<open>handleMouseDown\<close> and \<open>handleMouseMove\<close> of CustomScrollbar.tsx.\<close>

definition CustomScrollbar_handleMouseDown :: "CustomScrollbar \<Rightarrow> window \<Rightarrow> real \<Rightarrow> CustomScrollbar" where
  "CustomScrollbar_handleMouseDown st w clientY =
     st\<lparr>isDragging := True, dragStartY := clientY, dragStartScroll := scrollY w\<rparr>"

definition CustomScrollbar_handleMouseMove :: "CustomScrollbar \<Rightarrow> window \<Rightarrow> real \<Rightarrow> window option" where
  "CustomScrollbar_handleMouseMove st w clientY =
     (if \<not> isDragging st then Some w
      else
        let deltaY = clientY - dragStartY st;
            maxScroll = docHeight w - innerHeight w;
            maxThumbTop = innerHeight w - thumbHeight st
        in (case js_div deltaY maxThumbTop of
              None \<Rightarrow> None
            | Some q \<Rightarrow> Some (w\<lparr>scrollY := dragStartScroll st + q * maxScroll\<rparr>)))"


text \<open>
  A mounted PdfViewer before its first render: the initial values of its \<open>useState\<close>
  and \<open>useRef\<close> calls, the refs attached to their elements, a canvas of the default
  size with nothing drawn.
\<close>

definition PdfViewer_mounted :: "element \<Rightarrow> element \<Rightarrow> PdfViewer" where
  "PdfViewer_mounted container scrollArea =
     \<lparr>thumbHeight = 0, thumbTop = 0, isDragging = False, dragStartY = 0, dragStartScroll = 0,
      zoom = 1,
      canvasRef = Some \<lparr>canvas_width = 300, canvas_height = 150, style_width = None,
                        style_height = None, bitmap = Blank\<rparr>,
      containerRef = Some container, scrollAreaRef = Some scrollArea,
      baseScaleRef = 1, renderTaskRef = None, pdfDocRef = None,
      console_error = [], cancel_calls = [], retry_timer = False\<rparr>"

text \<open>
  The sums that the theming rule is stated with: the overlap of the span from \<open>t\<close> to
  \<open>b\<close> with the light-tagged (grid) sections, and with the others, each added up from
  0 in the order of the sections, as the loop does.
\<close>

definition light_overlap :: "real \<Rightarrow> real \<Rightarrow> section_box list \<Rightarrow> real" where
  "light_overlap t b secs = foldl (+) 0 (map (overlap t b) (filter grid_section secs))"

definition dark_overlap :: "real \<Rightarrow> real \<Rightarrow> section_box list \<Rightarrow> real" where
  "dark_overlap t b secs =
     foldl (+) 0 (map (overlap t b) (filter (\<lambda>s. \<not> grid_section s) secs))"


section \<open>Wheel routing (App.tsx)\<close>

text \<open>
  The source holds App.tsx in two copies. They agree in \<open>smoothScrollTo\<close> and in the
  lines of \<open>handleWheel\<close> up to the timer; they differ in \<open>detectCurrentSection\<close>,
  in the timer's callback, and in a first \<open>detectCurrentSection()\<close> that only the
  handler of the first copy makes. A name of the first copy ends in 1, of the second
  in 2.

  A wheel event as \<open>handleWheel\<close> reads it: its \<open>deltaY\<close>; the element
  \<open>e.target.closest(".pdf-scroll-area")\<close>, if any; and \<open>parseFloat\<close> of the
  \<open>data-zoom\<close> attribute of \<open>e.target.closest(".pdf-container")\<close>, which is
  \<open>None\<close> when there is no such container, the attribute is missing or empty, or it
  does not start with a number (the test \<open>zoom && parseFloat(zoom) > 1\<close> fails in each
  of these cases).
\<close>

record wheel_event =
  deltaY :: real
  pdfScrollArea :: "element option"
  data_zoom :: "real option"






















section \<open>The render run (PdfViewer.tsx)\<close>

text \<open>
  \<open>renderPdf\<close> is an async function: it runs from its call to its first await, and
  then from each await to the next, and other callbacks of the page run in between. The
  pieces between the awaits are embedded one by one (\<open>enter\<close>, \<open>after_load\<close>,
  \<open>start_render\<close>, \<open>finish_render\<close>), each on the state of the component at the
  moment the piece starts and with the value of the effect's \<open>isCancelled\<close> variable
  at that moment. A piece ends by returning from \<open>renderPdf\<close>, by throwing inside the
  \<open>try\<close>, or at the next await.
\<close>

datatype step = Returned PdfViewer | Threw thrown PdfViewer | Awaiting PdfViewer

text \<open>
  What the pieces meet outside the component: the device pixel ratio, the outcome of
  \<open>getDocument(url).promise\<close>, whether \<open>getContext("2d")\<close> gives a context, the task
  that \<open>page.render\<close> returns (or what it throws), the outcome of the task's promise
  (\<open>Some e\<close>: it rejects with \<open>e\<close>), and the metrics of the scroll area as the
  browser lays it out around the resized canvas. \<open>cancelled\<close> is used by the run of
  a single call below.
\<close>

datatype cancel_point = AtStart | DuringLoad | DuringGetPage | DuringRender | Never

record render_env =
  devicePixelRatio :: real
  getDocument :: "thrown + pdf_doc"
  getContext :: bool
  page_render :: "thrown + render_task"
  render_promise :: "thrown option"
  cancelled :: cancel_point
  laid_out :: element

text \<open>
  The viewport of a page that measures \<open>pw\<close> by \<open>ph\<close> at scale 1, each dimension
  the product of the page's dimension and the scale, a product of doubles. The pieces
  below take any page; the proportionality enters only the theorems that name
  \<open>linear_page\<close>.
\<close>

definition linear_page :: "real \<Rightarrow> real \<Rightarrow> pdf_page" where
  "linear_page pw ph scale =
     \<lparr>vp_width = double_times pw scale, vp_height = double_times ph scale\<rparr>"

text \<open>The test of the \<open>catch\<close> block, and the block.\<close>

definition should_log :: "thrown \<Rightarrow> bool" where
  "should_log error =
     (case error of
        Primitive \<Rightarrow> False
      | Object None \<Rightarrow> False
      | Object (Some name) \<Rightarrow> name \<noteq> ''RenderingCancelledException'')"

definition catch_block :: "thrown \<Rightarrow> PdfViewer \<Rightarrow> PdfViewer" where
  "catch_block error st =
     (if should_log error then st\<lparr>console_error := console_error st @ [error]\<rparr> else st)"

text \<open>
  \<open>// Cancel any previous render task\<close>: the call of \<open>cancel()\<close> stands in a
  \<open>try\<close> with an empty \<open>catch\<close>, so the ref is cleared whether the call throws or not.
\<close>

definition cancel_previous :: "PdfViewer \<Rightarrow> PdfViewer" where
  "cancel_previous st =
     (case renderTaskRef st of
        None \<Rightarrow> st
      | Some task \<Rightarrow>
          (case cancel task of
             None \<Rightarrow> st\<lparr>renderTaskRef := None, cancel_calls := cancel_calls st @ [task_id task]\<rparr>
           | Some error \<Rightarrow>
               st\<lparr>renderTaskRef := None, cancel_calls := cancel_calls st @ [task_id task]\<rparr>))"

text \<open>
  From the call of \<open>renderPdf\<close> to the \<open>try\<close>; \<open>container_height\<close> is the
  \<open>containerHeight\<close> that the call keeps for its later pieces.
\<close>

definition container_height :: "PdfViewer \<Rightarrow> real" where
  "container_height st =
     (case containerRef st of None \<Rightarrow> 0 | Some container \<Rightarrow> clientHeight container)"

definition enter :: "bool \<Rightarrow> PdfViewer \<Rightarrow> step" where
  "enter cancelled_now st =
     (case canvasRef st of
        None \<Rightarrow> Returned st
      | Some _ \<Rightarrow>
          (case containerRef st of
             None \<Rightarrow> Returned st
           | Some container \<Rightarrow>
               if cancelled_now then Returned st
               else
                 let containerHeight = clientHeight container;
                     containerWidth = clientWidth container
                 in if containerHeight = 0 \<or> containerWidth = 0
                    then Returned (st\<lparr>retry_timer := True\<rparr>)
                    else Awaiting (cancel_previous st)))"

text \<open>After \<open>await loadingTask.promise\<close> has given the document \<open>pdf\<close>.\<close>

definition after_load :: "bool \<Rightarrow> pdf_doc \<Rightarrow> PdfViewer \<Rightarrow> step" where
  "after_load cancelled_now pdf st =
     (if cancelled_now then Returned st else Awaiting (st\<lparr>pdfDocRef := Some pdf\<rparr>))"

text \<open>
  After \<open>await pdfDocRef.current.getPage(1)\<close> has given \<open>page\<close>, up to
  \<open>await renderTask.promise\<close>. Nothing else runs inside a piece, so the tests of
  \<open>isCancelled\<close> further down the piece read the value that its first test read.
  The scales are computed in doubles: \<open>containerHeight / unscaledViewport.height\<close>,
  \<open>calculatedBaseScale * zoom\<close> and \<open>displayScale * outputScale\<close> are each rounded.
\<close>

definition start_render :: "bool \<Rightarrow> render_env \<Rightarrow> real \<Rightarrow> pdf_page \<Rightarrow> PdfViewer \<Rightarrow> step option" where
  "start_render cancelled_now env containerHeight page st =
     (if cancelled_now then Some (Returned st)
      else
        let unscaledViewport = page 1 in
        case double_div containerHeight (vp_height unscaledViewport) of
          None \<Rightarrow> None
        | Some calculatedBaseScale \<Rightarrow>
            let st1 = st\<lparr>baseScaleRef := calculatedBaseScale\<rparr>;
                displayScale = double_times calculatedBaseScale (zoom st);
                deviceRatio = (if devicePixelRatio env = 0 then 1 else devicePixelRatio env);
                outputScale = max 1.5 deviceRatio;
                renderScale = double_times displayScale outputScale;
                renderViewport = page renderScale;
                displayViewport = page displayScale
            in case canvasRef st1 of
                 None \<Rightarrow> Some (Returned st1)
               | Some canvas \<Rightarrow>
                   if \<not> getContext env then Some (Returned st1)
                   else
                     let canvas1 = canvas\<lparr>canvas_width := \<lfloor>vp_width renderViewport\<rfloor>,
                                     canvas_height := \<lfloor>vp_height renderViewport\<rfloor>,
                                     style_width := Some (vp_width displayViewport),
                                     style_height := Some (vp_height displayViewport),
                                     bitmap := White\<rparr>;
                         st2 = st1\<lparr>canvasRef := Some canvas1\<rparr>
                     in case page_render env of
                          Inl error \<Rightarrow> Some (Threw error st2)
                        | Inr renderTask \<Rightarrow>
                            Some (Awaiting
                              (st2\<lparr>canvasRef := Some (canvas1\<lparr>bitmap := Unfinished renderScale\<rparr>),
                                  renderTaskRef := Some renderTask\<rparr>)))"

text \<open>
  After \<open>await renderTask.promise\<close> has resolved: the rasterisation on the canvas is
  complete, the ref is cleared, the scroll area is centred and the scrollbar updated.
  (What two tasks that draw on one canvas leave on it is pdf.js's matter and is not
  modelled: the bitmap is meant for a call on its own.)
\<close>

definition completed :: "canvas \<Rightarrow> canvas" where
  "completed cv = cv\<lparr>bitmap := (case bitmap cv of Unfinished s \<Rightarrow> Page s | b \<Rightarrow> b)\<rparr>"

definition centre_and_update :: "render_env \<Rightarrow> PdfViewer \<Rightarrow> PdfViewer option" where
  "centre_and_update env st =
     PdfViewer_updateScrollbar
       (case scrollAreaRef st of
          None \<Rightarrow> st
        | Some _ \<Rightarrow>
            let scrollArea = laid_out env;
                clientWidthNow = clientWidth scrollArea
            in if scrollWidth scrollArea > clientWidthNow
               then st\<lparr>scrollAreaRef :=
                      Some (scrollArea\<lparr>scrollLeft := (scrollWidth scrollArea - clientWidthNow) / 2\<rparr>)\<rparr>
               else st\<lparr>scrollAreaRef := Some scrollArea\<rparr>)"

definition finish_render :: "bool \<Rightarrow> render_env \<Rightarrow> PdfViewer \<Rightarrow> step option" where
  "finish_render cancelled_now env st =
     (let st4 = st\<lparr>canvasRef := map_option completed (canvasRef st), renderTaskRef := None\<rparr>
      in if cancelled_now then Some (Returned st4)
         else map_option Returned (centre_and_update env st4))"


subsection \<open>One call on its own\<close>

text \<open>
  A call of \<open>renderPdf\<close> that no other callback interferes with, but for the cleanup of
  the effect, which sets \<open>isCancelled\<close>. The call can see the variable change only
  while it is suspended at one of its three awaits: the document load (1), \<open>getPage\<close>
  (2) and the render task's promise (3). \<open>isCancelled c n\<close> is the variable as the
  call reads it once \<open>n\<close> of these points are behind it, for a cleanup that ran at the
  point \<open>c\<close>.
\<close>

fun isCancelled :: "cancel_point \<Rightarrow> nat \<Rightarrow> bool" where
  "isCancelled AtStart n = True"
| "isCancelled DuringLoad n = (1 \<le> n)"
| "isCancelled DuringGetPage n = (2 \<le> n)"
| "isCancelled DuringRender n = (3 \<le> n)"
| "isCancelled Never n = False"

text \<open>
  The body of the \<open>try\<close> from \<open>page.getViewport({ scale: 1 })\<close> on. The result pairs
  the value thrown inside the \<open>try\<close>, if any, with the state at that moment.
\<close>

definition rasterize ::
  "render_env \<Rightarrow> real \<Rightarrow> pdf_page \<Rightarrow> PdfViewer \<Rightarrow> (thrown option \<times> PdfViewer) option" where
  "rasterize env containerHeight page st =
     (case start_render (isCancelled (cancelled env) 2) env containerHeight page st of
        None \<Rightarrow> None
      | Some (Returned st1) \<Rightarrow> Some (None, st1)
      | Some (Threw error st2) \<Rightarrow> Some (Some error, st2)
      | Some (Awaiting st3) \<Rightarrow>
          (case render_promise env of
             Some error \<Rightarrow> Some (Some error, st3)
           | None \<Rightarrow>
               (case finish_render (isCancelled (cancelled env) 3) env st3 of
                  None \<Rightarrow> None
                | Some (Returned st4) \<Rightarrow> Some (None, st4)
                | Some (Threw error st4) \<Rightarrow> Some (Some error, st4)
                | Some (Awaiting st4) \<Rightarrow> Some (None, st4))))"

text \<open>\<open>getPage(1)\<close> and what follows it; \<open>n\<close> counts the awaits behind the call.\<close>

definition fetch_page ::
  "render_env \<Rightarrow> real \<Rightarrow> nat \<Rightarrow> pdf_doc \<Rightarrow> PdfViewer \<Rightarrow> (thrown option \<times> PdfViewer) option" where
  "fetch_page env containerHeight n pdf st =
     (if isCancelled (cancelled env) n then Some (None, st)
      else case pdf of
             Inl error \<Rightarrow> Some (Some error, st)
           | Inr page \<Rightarrow> rasterize env containerHeight page st)"

text \<open>The body of the \<open>try\<close>.\<close>

definition try_body ::
  "render_env \<Rightarrow> real \<Rightarrow> PdfViewer \<Rightarrow> (thrown option \<times> PdfViewer) option" where
  "try_body env containerHeight st =
     (case pdfDocRef st of
        Some pdf \<Rightarrow> fetch_page env containerHeight 0 pdf st
      | None \<Rightarrow>
          (case getDocument env of
             Inl error \<Rightarrow> Some (Some error, st)
           | Inr pdf \<Rightarrow>
               (case after_load (isCancelled (cancelled env) 1) pdf st of
                  Returned st1 \<Rightarrow> Some (None, st1)
                | Threw error st1 \<Rightarrow> Some (Some error, st1)
                | Awaiting st1 \<Rightarrow> fetch_page env containerHeight 1 pdf st1)))"

text \<open>
  The call. The first component of the result is the value that leaves the function
  as an exception, if any.
\<close>

definition renderPdf :: "render_env \<Rightarrow> PdfViewer \<Rightarrow> (thrown option \<times> PdfViewer) option" where
  "renderPdf env st =
     (case enter (isCancelled (cancelled env) 0) st of
        Returned st1 \<Rightarrow> Some (None, st1)
      | Threw error st1 \<Rightarrow> Some (Some error, st1)
      | Awaiting st1 \<Rightarrow>
          (case try_body env (container_height st) st1 of
             None \<Rightarrow> None
           | Some (None, st') \<Rightarrow> Some (None, st')
           | Some (Some error, st') \<Rightarrow> Some (None, catch_block error st')))"

text \<open>
  The page that a call works on: page 1 of the cached document, or of the document that
  the call loads when none is cached.
\<close>

definition page_of :: "render_env \<Rightarrow> PdfViewer \<Rightarrow> pdf_page \<Rightarrow> bool" where
  "page_of env st page =
     (pdfDocRef st = Some (Inr page) \<or> pdfDocRef st = None \<and> getDocument env = Inr (Inr page))"

text \<open>
  A call that gets as far as the \<open>try\<close>: both refs are set, the container has a size
  and the cleanup has not run.
\<close>

definition ready :: "render_env \<Rightarrow> PdfViewer \<Rightarrow> bool" where
  "ready env st =
     (canvasRef st \<noteq> None
      \<and> (case containerRef st of
            None \<Rightarrow> False
          | Some container \<Rightarrow> clientHeight container \<noteq> 0 \<and> clientWidth container \<noteq> 0)
      \<and> \<not> isCancelled (cancelled env) 0)"


subsection \<open>Calls that overlap\<close>

text \<open>
  Within one run of the effect, before its cleanup (\<open>isCancelled\<close> is false), every
  call of \<open>renderPdf\<close> (by the 50 ms timer, by the retry timer, by \<open>handleResize\<close>)
  starts a new call while earlier ones may still be suspended. \<open>in_flight\<close> lists the
  calls in the order they were made, each with the await it is suspended at and the
  \<open>containerHeight\<close> it read when it was made.
\<close>

datatype suspended_at = At_load real | At_page real | At_render | Ended

record effect_run =
  viewer :: PdfViewer
  in_flight :: "suspended_at list"

text \<open>
  What happens on the page: a call of \<open>renderPdf\<close>; the browser gives the container a
  new size; the load, the page fetch or the render task of the \<open>i\<close>-th call settles.
\<close>

datatype event =
    Call_renderPdf
  | Container_resized element
  | Load_settles nat "thrown + pdf_doc"
  | Page_settles nat render_env "thrown + pdf_page"
  | Render_settles nat render_env "thrown option"

definition settle :: "nat \<Rightarrow> suspended_at \<Rightarrow> PdfViewer \<Rightarrow> effect_run \<Rightarrow> effect_run" where
  "settle i point st r = \<lparr>viewer = st, in_flight = (in_flight r)[i := point]\<rparr>"

definition end_step :: "nat \<Rightarrow> suspended_at \<Rightarrow> step \<Rightarrow> effect_run \<Rightarrow> effect_run" where
  "end_step i next_point s r =
     (case s of
        Returned st \<Rightarrow> settle i Ended st r
      | Threw error st \<Rightarrow> settle i Ended (catch_block error st) r
      | Awaiting st \<Rightarrow> settle i next_point st r)"

fun react :: "event \<Rightarrow> effect_run \<Rightarrow> effect_run option" where
  "react Call_renderPdf r =
     (let h = container_height (viewer r) in
      case enter False (viewer r) of
        Returned st \<Rightarrow> Some \<lparr>viewer = st, in_flight = in_flight r @ [Ended]\<rparr>
      | Threw error st \<Rightarrow> Some \<lparr>viewer = st, in_flight = in_flight r @ [Ended]\<rparr>
      | Awaiting st \<Rightarrow>
          Some \<lparr>viewer = st,
                in_flight = in_flight r @ [if pdfDocRef st = None then At_load h else At_page h]\<rparr>)"
| "react (Container_resized container) r =
     Some (r\<lparr>viewer := (viewer r)\<lparr>containerRef := map_option (\<lambda>_. container) (containerRef (viewer r))\<rparr>\<rparr>)"
| "react (Load_settles i outcome) r =
     (if i < length (in_flight r) then
        (case in_flight r ! i of
           At_load h \<Rightarrow>
             (case outcome of
                Inl error \<Rightarrow> Some (end_step i Ended (Threw error (viewer r)) r)
              | Inr pdf \<Rightarrow> Some (end_step i (At_page h) (after_load False pdf (viewer r)) r))
         | _ \<Rightarrow> None)
      else None)"
| "react (Page_settles i env outcome) r =
     (if i < length (in_flight r) then
        (case in_flight r ! i of
           At_page h \<Rightarrow>
             (case outcome of
                Inl error \<Rightarrow> Some (end_step i Ended (Threw error (viewer r)) r)
              | Inr page \<Rightarrow>
                  map_option (\<lambda>s. end_step i At_render s r) (start_render False env h page (viewer r)))
         | _ \<Rightarrow> None)
      else None)"
| "react (Render_settles i env outcome) r =
     (if i < length (in_flight r) then
        (case in_flight r ! i of
           At_render \<Rightarrow>
             (case outcome of
                Some error \<Rightarrow> Some (end_step i Ended (Threw error (viewer r)) r)
              | None \<Rightarrow> map_option (\<lambda>s. end_step i Ended s r) (finish_render False env (viewer r)))
         | _ \<Rightarrow> None)
      else None)"

fun react_all :: "event list \<Rightarrow> effect_run \<Rightarrow> effect_run option" where
  "react_all [] r = Some r"
| "react_all (ev # evs) r = (case react ev r of None \<Rightarrow> None | Some r' \<Rightarrow> react_all evs r')"


section \<open>Theorems\<close>

subsection \<open>Double arithmetic\<close>

lemma pow2_powi: "pow2 e = 2 powi e"
  by (simp add: pow2_def power_int_def inverse_eq_divide power_one_over)

lemma pow2_pos: "0 < pow2 e"
  by (simp add: pow2_powi)

lemma pow2_add: "pow2 (a + b) = pow2 a * pow2 b"
  by (simp add: pow2_powi power_int_add)

lemma binade_up_lower: "2 ^ e \<le> x \<Longrightarrow> 2 ^ binade_up x e \<le> x"
proof (induction x e rule: binade_up.induct)
  case (1 x e)
  show ?case
  proof (cases "1023 \<le> e \<or> x < 2 ^ (e + 1)")
    case True
    then have "binade_up x e = e" by (subst binade_up.simps) simp
    with 1(2) show ?thesis by simp
  next
    case False
    then have "binade_up x e = binade_up x (e + 1)" by (subst binade_up.simps) simp
    moreover from False have "2 ^ (e + 1) \<le> x" by simp
    ultimately show ?thesis using 1(1) [OF False] by simp
  qed
qed

lemma binade_up_upper: "x < 2 ^ 1024 \<Longrightarrow> e \<le> 1023 \<Longrightarrow> x < 2 ^ (binade_up x e + 1)"
proof (induction x e rule: binade_up.induct)
  case (1 x e)
  show ?case
  proof (cases "1023 \<le> e \<or> x < 2 ^ (e + 1)")
    case True
    then have b: "binade_up x e = e" by (subst binade_up.simps) simp
    from True 1(3) consider "e = 1023" | "x < 2 ^ (e + 1)" by linarith
    then show ?thesis
    proof cases
      case 1
      with \<open>x < 2 ^ 1024\<close> b show ?thesis by simp
    next
      case 2
      with b show ?thesis by simp
    qed
  next
    case False
    then have "binade_up x e = binade_up x (e + 1)" by (subst binade_up.simps) simp
    moreover from False have "e + 1 \<le> 1023" by simp
    ultimately show ?thesis using 1(1) [OF False 1(2)] by simp
  qed
qed

lemma binade_down_lower: "1 \<le> x * 2 ^ 1022 \<Longrightarrow> k \<le> 1022 \<Longrightarrow> 1 \<le> x * 2 ^ binade_down x k"
proof (induction x k rule: binade_down.induct)
  case (1 x k)
  show ?case
  proof (cases "1022 \<le> k \<or> 1 \<le> x * 2 ^ k")
    case True
    then have b: "binade_down x k = k" by (subst binade_down.simps) simp
    from True 1(3) consider "k = 1022" | "1 \<le> x * 2 ^ k" by linarith
    then show ?thesis
    proof cases
      case 1
      with \<open>1 \<le> x * 2 ^ 1022\<close> b show ?thesis by simp
    next
      case 2
      with b show ?thesis by simp
    qed
  next
    case False
    then have "binade_down x k = binade_down x (k + 1)" by (subst binade_down.simps) simp
    moreover from False have "k + 1 \<le> 1022" by simp
    ultimately show ?thesis using 1(1) [OF False 1(2)] by simp
  qed
qed

lemma binade_down_upper:
  "0 \<le> x \<Longrightarrow> 1 \<le> k \<Longrightarrow> x * 2 ^ (k - 1) < 1 \<Longrightarrow> x * 2 ^ (binade_down x k - 1) < 1"
proof (induction x k rule: binade_down.induct)
  case (1 x k)
  show ?case
  proof (cases "1022 \<le> k \<or> 1 \<le> x * 2 ^ k")
    case True
    then have b: "binade_down x k = k" by (subst binade_down.simps) simp
    with 1(4) show ?thesis by simp
  next
    case False
    then have "binade_down x k = binade_down x (k + 1)" by (subst binade_down.simps) simp
    moreover from False have "x * 2 ^ (k + 1 - 1) < 1" by simp
    ultimately show ?thesis using 1(1) [OF False 1(2)] by simp
  qed
qed

lemma binade_down_ge: "k \<le> binade_down x k"
proof (induction x k rule: binade_down.induct)
  case (1 x k)
  show ?case
  proof (cases "1022 \<le> k \<or> 1 \<le> x * 2 ^ k")
    case True
    then have "binade_down x k = k" by (subst binade_down.simps) simp
    then show ?thesis by simp
  next
    case False
    then have "binade_down x k = binade_down x (k + 1)" by (subst binade_down.simps) simp
    with 1 [OF False] show ?thesis by simp
  qed
qed

text \<open>In the range of the normal doubles the exponent is that of the binade.\<close>

lemma exponent_binade:
  assumes "pow2 (- 1022) \<le> \<bar>x\<bar>" and "\<bar>x\<bar> < pow2 1024"
  shows "pow2 (exponent x) \<le> \<bar>x\<bar> \<and> \<bar>x\<bar> < pow2 (exponent x + 1)"
proof (cases "1 \<le> \<bar>x\<bar>")
  case True
  then have e: "exponent x = int (binade_up \<bar>x\<bar> 0)" by (simp add: exponent_def)
  from True have "2 ^ binade_up \<bar>x\<bar> 0 \<le> \<bar>x\<bar>"
    by (intro binade_up_lower) simp
  moreover from assms(2) have "\<bar>x\<bar> < 2 ^ (binade_up \<bar>x\<bar> 0 + 1)"
    by (intro binade_up_upper) (simp_all add: pow2_def)
  ultimately show ?thesis
    by (simp add: e pow2_def nat_add_distrib)
next
  case False
  define k where "k = binade_down \<bar>x\<bar> 1"
  from False have e: "exponent x = - int k" by (simp add: exponent_def k_def)
  have k1: "1 \<le> k" unfolding k_def by (rule binade_down_ge)
  from assms(1) have "1 \<le> \<bar>x\<bar> * 2 ^ 1022"
    by (simp add: pow2_def field_simps)
  then have l: "1 \<le> \<bar>x\<bar> * 2 ^ k"
    unfolding k_def by (intro binade_down_lower) simp_all
  from False have u: "\<bar>x\<bar> * 2 ^ (k - 1) < 1"
    unfolding k_def by (intro binade_down_upper) simp_all
  have "pow2 (- int k) = 1 / 2 ^ k"
    using k1 by (simp add: pow2_def)
  moreover have "pow2 (- int k + 1) = 1 / 2 ^ (k - 1)"
  proof (cases "k = 1")
    case True
    then show ?thesis by (simp add: pow2_def)
  next
    case False
    with k1 have "\<not> 0 \<le> - int k + 1" "nat (- (- int k + 1)) = k - 1" by simp_all
    then show ?thesis by (simp only: pow2_def if_False)
  qed
  ultimately have p: "pow2 (exponent x) = 1 / 2 ^ k" "pow2 (exponent x + 1) = 1 / 2 ^ (k - 1)"
    by (simp_all only: e)
  have "1 / 2 ^ k \<le> \<bar>x\<bar>"
    using l by (simp add: pos_divide_le_eq)
  moreover have "\<bar>x\<bar> < 1 / 2 ^ (k - 1)"
    using u by (simp add: pos_less_divide_eq)
  ultimately show ?thesis
    by (simp only: p)
qed

lemma round_half_even_error: "\<bar>of_int (round_half_even m) - m\<bar> \<le> 1 / 2"
  unfolding round_half_even_def Let_def by (auto simp: abs_le_iff)

text \<open>The relative error of a rounding is at most \<open>2^-53\<close>.\<close>

lemma to_double_error: "\<bar>to_double x - x\<bar> \<le> \<bar>x\<bar> / 2 ^ 53"
proof (cases "\<bar>x\<bar> < pow2 (- 1022) \<or> pow2 1024 \<le> \<bar>x\<bar>")
  case True
  then show ?thesis by (simp add: to_double_def)
next
  case False
  define u where "u = pow2 (exponent x - 52)"
  have u: "0 < u" by (simp add: u_def pow2_pos)
  from False have t: "to_double x = of_int (round_half_even (x / u)) * u"
    by (simp add: to_double_def u_def Let_def)
  have "to_double x - x = (of_int (round_half_even (x / u)) - x / u) * u"
    using u by (simp add: t field_simps)
  then have "\<bar>to_double x - x\<bar> = \<bar>of_int (round_half_even (x / u)) - x / u\<bar> * u"
    using u by (simp add: abs_mult)
  also have "\<dots> \<le> 1 / 2 * u"
    using u round_half_even_error [of "x / u"] by (intro mult_right_mono) simp_all
  also have "\<dots> = pow2 (exponent x) / 2 ^ 53"
  proof -
    have "pow2 (exponent x) = pow2 (exponent x - 52) * pow2 52"
      using pow2_add [of "exponent x - 52" 52] by simp
    then show ?thesis by (simp add: u_def pow2_def)
  qed
  also have "\<dots> \<le> \<bar>x\<bar> / 2 ^ 53"
    using False exponent_binade [of x] by (simp add: divide_right_mono)
  finally show ?thesis .
qed

text \<open>A rounding keeps the sign, and moves a number that is not negative by at most
  the factor \<open>1 - 2^-53\<close> down and \<open>1 + 2^-53\<close> up.\<close>

lemma to_double_bounds:
  assumes "0 \<le> x"
  shows "x * (1 - 1 / 2 ^ 53) \<le> to_double x" and "to_double x \<le> x * (1 + 1 / 2 ^ 53)"
    and "0 \<le> to_double x"
proof -
  from to_double_error [of x] assms have "\<bar>to_double x - x\<bar> \<le> x / 2 ^ 53"
    by simp
  then have e: "x - x / 2 ^ 53 \<le> to_double x" "to_double x \<le> x + x / 2 ^ 53"
    by linarith+
  have m: "x * (1 - 1 / 2 ^ 53) = x - x / 2 ^ 53" "x * (1 + 1 / 2 ^ 53) = x + x / 2 ^ 53"
    by (simp_all add: algebra_simps)
  from e show l: "x * (1 - 1 / 2 ^ 53) \<le> to_double x"
    and "to_double x \<le> x * (1 + 1 / 2 ^ 53)"
    by (simp_all only: m)
  have "0 \<le> x * (1 - 1 / 2 ^ 53)"
    using assms by (intro mult_nonneg_nonneg) simp_all
  with l show "0 \<le> to_double x"
    by linarith
qed

text \<open>
  The supersampling under rounding: for a page dimension \<open>p\<close>, a display scale
  \<open>d\<close> and an output scale of at least 1.5, the dimension at the render scale is at
  least 1.5 times the dimension at the display scale, up to the three roundings.
\<close>

lemma supersample_bound:
  fixes p d out :: real
  assumes "0 \<le> p" and "0 \<le> d" and "1.5 \<le> out"
  shows "1.5 * (1 - 3 / 2 ^ 53) * double_times p d \<le> double_times p (double_times d out)"
proof -
  define u :: real where "u = 1 / 2 ^ 53"
  have u: "0 \<le> 1 - u" "0 \<le> 1 - 3 * u" "(1 - 3 * u) * (1 + u) \<le> (1 - u) * (1 - u)"
    by (simp_all add: u_def)
  have o: "0 \<le> out" using assms(3) by simp
  have pd: "0 \<le> p * d" using assms(1,2) by simp
  have "0 \<le> d * out" using assms(2) o by simp
  from to_double_bounds(1,3) [OF this]
  have r: "d * out * (1 - u) \<le> double_times d out" "0 \<le> double_times d out"
    by (simp_all add: double_times_def u_def)
  have "0 \<le> p * double_times d out" using assms(1) r(2) by simp
  from to_double_bounds(1) [OF this]
  have e: "p * double_times d out * (1 - u) \<le> double_times p (double_times d out)"
    by (simp add: double_times_def u_def)
  have "1.5 * (1 - 3 * u) * double_times p d \<le> 1.5 * (1 - 3 * u) * (p * d * (1 + u))"
    using to_double_bounds(2) [OF pd] u(2)
    by (intro mult_left_mono) (simp_all add: double_times_def u_def)
  also have "\<dots> = p * d * 1.5 * ((1 - 3 * u) * (1 + u))"
    by (simp only: mult_ac)
  also have "\<dots> \<le> p * d * 1.5 * ((1 - u) * (1 - u))"
    using pd u(3) by (intro mult_left_mono) simp_all
  also have "\<dots> \<le> p * d * out * ((1 - u) * (1 - u))"
    using pd assms(3) u(1) by (intro mult_right_mono mult_left_mono) simp_all
  also have "\<dots> = p * (d * out * (1 - u)) * (1 - u)"
    by (simp only: mult_ac)
  also have "\<dots> \<le> p * double_times d out * (1 - u)"
    using r(1) assms(1) u(1) by (intro mult_right_mono mult_left_mono)
  also note e
  finally show ?thesis by (simp add: u_def)
qed

text \<open>The definitions that a rounding at given numbers is evaluated with.\<close>

lemmas double_arith = to_double_def exponent_def pow2_def round_half_even_def
  binade_up.simps binade_down.simps


subsection \<open>Contact decoding\<close>

lemma u_k_value: "u_k = js ''vK9xQ2m''"
  by (simp add: u_k_def u_css1_def u_css2_def u_attr_def u_prop_def u_anim_def u_unit_def
      u_mode_def js_def char_at_def)

lemma length_u_k: "length u_k = 7"
  by (simp add: u_k_value js_def)

text \<open>The key is never read out of range.\<close>

lemma key_index_in_range: "i mod length u_k < length u_k"
  by (simp add: length_u_k)

lemma shift_bounds: "1 \<le> shift i \<and> shift i \<le> 13"
proof -
  have "0 \<le> charCodeAt u_k (i mod length u_k) mod 13"
    and "charCodeAt u_k (i mod length u_k) mod 13 < 13"
    by simp_all
  then show ?thesis
    unfolding shift_def by linarith
qed

lemma shift_period: "shift i = shift (i mod 7)"
  by (simp add: shift_def length_u_k)

lemma decode_map:
  "decode codes = map (\<lambda>(i, code). word_of_int (code - shift i)) (enumerate 0 codes)"
proof -
  have "concat (map (\<lambda>p. [f p]) ps) = map f ps" for f :: "nat \<times> int \<Rightarrow> code_unit" and ps
    by (induction ps) simp_all
  then show ?thesis
    by (simp add: decode_def fromCharCode_def case_prod_unfold)
qed

lemma length_decode: "length (decode codes) = length codes"
  by (simp add: decode_map)

lemma decode_nth:
  "i < length codes \<Longrightarrow> decode codes ! i = word_of_int (codes ! i - shift i)"
  by (simp add: decode_map nth_enumerate_eq)

lemma length_encode: "length (encode str) = length str"
  by (simp add: encode_def split_units_def)

lemma encode_nth: "i < length str \<Longrightarrow> encode str ! i = uint (str ! i) + shift i"
  by (simp add: encode_def split_units_def nth_enumerate_eq charCodeAt_def)

lemma decode_encode: "decode (encode str) = str"
proof (rule nth_equalityI)
  show "length (decode (encode str)) = length str"
    by (simp add: length_decode length_encode)
next
  fix i
  assume "i < length (decode (encode str))"
  then have i: "i < length str"
    by (simp add: length_decode length_encode)
  then have "decode (encode str) ! i = word_of_int (uint (str ! i) + shift i - shift i)"
    by (simp add: decode_nth length_encode encode_nth)
  then show "decode (encode str) ! i = str ! i"
    by simp
qed

text \<open>
  Claim C8. For every string over the printable ASCII range, decoding the encoded string
  gives the string back; the key assembled from the scattered literals is "vK9xQ2m" (7
  units); at each index \<open>i\<close> the encoder adds, and the decoder subtracts, the shift
  \<open>(key.charCodeAt(i mod 7) mod 13) + 1\<close>.
\<close>

theorem decode_encode_roundtrip:
  assumes "list_all printable s"
  shows "decode (encode s) = s
    \<and> u_k = js ''vK9xQ2m'' \<and> length u_k = 7
    \<and> (\<forall>i<length s.
          encode s ! i = uint (s ! i) + (charCodeAt (js ''vK9xQ2m'') (i mod 7) mod 13 + 1)
        \<and> decode (encode s) ! i =
            word_of_int (encode s ! i - (charCodeAt (js ''vK9xQ2m'') (i mod 7) mod 13 + 1)))"
proof -
  have sh: "shift i = charCodeAt (js ''vK9xQ2m'') (i mod 7) mod 13 + 1" for i
    unfolding shift_def length_u_k by (simp add: u_k_value)
  show ?thesis
  proof (intro conjI allI impI)
    show "decode (encode s) = s" by (rule decode_encode)
    show "u_k = js ''vK9xQ2m''" by (rule u_k_value)
    show "length u_k = 7" by (rule length_u_k)
  next
    fix i
    assume i: "i < length s"
    show "encode s ! i = uint (s ! i) + (charCodeAt (js ''vK9xQ2m'') (i mod 7) mod 13 + 1)"
      unfolding sh [symmetric] using i by (rule encode_nth)
    show "decode (encode s) ! i =
        word_of_int (encode s ! i - (charCodeAt (js ''vK9xQ2m'') (i mod 7) mod 13 + 1))"
      unfolding sh [symmetric] using i by (simp only: decode_nth length_encode)
  qed
qed

theorem decode_encode_roundtrip_witness:
  "list_all printable (js ''j-z-w'')
   \<and> encode (js ''j-z-w'') = [108, 56, 128, 49, 123]
   \<and> decode (encode (js ''j-z-w'')) = js ''j-z-w''"
proof -
  have p: "list_all printable (js ''j-z-w'')"
    by (simp add: js_def printable_def)
  have e: "encode (js ''j-z-w'') = [108, 56, 128, 49, 123]"
    by (simp add: encode_def split_units_def enumerate_eq_zip shift_def u_k_value js_def
        charCodeAt_def upt_rec)
  from decode_encode_roundtrip [OF p] p e show ?thesis
    by simp
qed

text \<open>
  Claim C10, as the claim states it, fails for a code below its shift: the character code
  is never negative. \<open>decode [0]\<close> is the one unit 65534, while \<open>0 - shift 0 = -2\<close>.
  (It fails for codes beyond \<open>2^53\<close> as well, where the program's difference is
  rounded.)
\<close>

theorem decode_code_counterexample:
  "shift 0 = 2 \<and> uint (decode [0] ! 0) = 65534 \<and> uint (decode [0] ! 0) \<noteq> [0] ! 0 - shift 0"
  by (simp add: decode_def enumerate_eq_zip shift_def u_k_value js_def charCodeAt_def
      fromCharCode_def)

text \<open>
  Claim C10, amended. For every array of integer codes \<open>decode\<close> returns a string as
  long as the array; where a code's absolute value is at most \<open>2^53 - 13\<close> (so that
  the program's doubles hold the code and \<open>codes[i] - shift\<close> exactly), the character
  at its index \<open>i\<close> has the code \<open>codes[i] - shift i\<close> reduced modulo 65536, which
  is \<open>codes[i] - shift i\<close> itself when that lies in \<open>0..65535\<close>; the shift depends
  only on \<open>i mod 7\<close> and lies between 1 and 13.
\<close>

theorem decode_length_and_codes:
  "length (decode codes) = length codes
   \<and> (\<forall>i<length codes. \<bar>codes ! i\<bar> \<le> 2 ^ 53 - 13 \<longrightarrow>
         uint (decode codes ! i) = (codes ! i - shift i) mod 65536
       \<and> (shift i \<le> codes ! i \<and> codes ! i - shift i < 65536
            \<longrightarrow> uint (decode codes ! i) = codes ! i - shift i))
   \<and> (\<forall>i. shift i = shift (i mod 7) \<and> 1 \<le> shift i \<and> shift i \<le> 13)"
proof -
  have m: "uint (decode codes ! i) = (codes ! i - shift i) mod 65536"
    if "i < length codes" for i
    using that by (simp only: decode_nth uint_word_of_int) simp
  have "uint (decode codes ! i) = codes ! i - shift i"
    if "i < length codes" "shift i \<le> codes ! i" "codes ! i - shift i < 65536" for i
    using that m [of i] by simp
  with m shift_bounds shift_period show ?thesis
    by (simp add: length_decode)
qed

text \<open>The stored github value, whose codes are far inside the bound.\<close>

theorem decode_length_and_codes_witness:
  "length (decode [108, 56, 128, 49, 123]) = 5
   \<and> list_all (\<lambda>code. \<bar>code\<bar> \<le> 2 ^ 53 - 13) [108, 56, 128, 49, 123 :: int]
   \<and> uint (decode [108, 56, 128, 49, 123] ! 1) = 56 - shift 1
   \<and> shift 1 = 11
   \<and> decode [108, 56, 128, 49, 123] = js ''j-z-w''"
proof -
  have s: "shift 1 = 11"
    by (simp add: shift_def u_k_value js_def charCodeAt_def)
  have d: "decode [108, 56, 128, 49, 123] = js ''j-z-w''"
    by (simp add: decode_def enumerate_eq_zip shift_def u_k_value js_def charCodeAt_def
        fromCharCode_def upt_rec)
  from decode_length_and_codes [of "[108, 56, 128, 49, 123]"] s d show ?thesis
    by (simp add: js_def)
qed


subsection \<open>Zoom\<close>

lemma zoom_after_snoc: "zoom_after (acts @ [a]) = setZoom (zoom_after acts) a"
  by (simp add: zoom_after_def)

lemma setZoom_levels: "z \<in> zoom_levels \<Longrightarrow> setZoom z a \<in> zoom_levels"
  by (cases a) (auto simp: zoom_levels_def handleZoomIn_def handleZoomOut_def handleReset_def)

lemma zoom_after_levels: "zoom_after acts \<in> zoom_levels"
proof (induction acts rule: rev_induct)
  case Nil
  show ?case by (simp add: zoom_after_def zoom_levels_def)
next
  case (snoc a acts)
  then show ?case by (simp add: zoom_after_snoc setZoom_levels)
qed

text \<open>
  Claim C4. From zoom 1.0, every finite sequence of zoomIn, zoomOut and reset keeps the
  zoom factor in \<open>{1.0, 1.25, 1.5, 1.75, 2.0}\<close>; zoomIn adds 0.25 and clamps at 2.0,
  zoomOut subtracts 0.25 and clamps at 1.0, reset sets 1.0.
\<close>

theorem zoom_stays_on_levels:
  "zoom_after acts \<in> {1, 1.25, 1.5, 1.75, 2}
   \<and> zoom_after (acts @ [ZoomIn]) = min (zoom_after acts + 0.25) 2
   \<and> zoom_after (acts @ [ZoomOut]) = max (zoom_after acts - 0.25) 1
   \<and> zoom_after (acts @ [Reset]) = 1"
  using zoom_after_levels [of acts]
  by (simp add: zoom_after_snoc zoom_levels_def handleZoomIn_def handleZoomOut_def
      handleReset_def)



subsection \<open>Thumb geometry\<close>

lemma PdfViewer_updateScrollbar_value:
  assumes "scrollAreaRef st = Some a" and "scrollHeight a \<noteq> 0"
  shows "PdfViewer_updateScrollbar st =
      Some (st\<lparr>thumbHeight := max (clientHeight a / scrollHeight a * clientHeight a) 40,
               thumbTop := (if scrollHeight a \<le> clientHeight a then 0
                  else scrollTop a / (scrollHeight a - clientHeight a)
                     * (clientHeight a - max (clientHeight a / scrollHeight a * clientHeight a) 40))\<rparr>)"
  using assms by (simp add: PdfViewer_updateScrollbar_def js_div_def Let_def not_less)

lemma forEach_section_foldl:
  "forEach_section t b secs (d, l) =
     (foldl (+) d (map (overlap t b) (filter (\<lambda>s. \<not> grid_section s) secs)),
      foldl (+) l (map (overlap t b) (filter grid_section secs)))"
  by (induction secs arbitrary: d l) simp_all

lemma forEach_section_sums:
  "forEach_section t b secs (0, 0) = (dark_overlap t b secs, light_overlap t b secs)"
  by (simp add: forEach_section_foldl dark_overlap_def light_overlap_def)

text \<open>In exact arithmetic, not more than half of the overlap is over dark sections
  exactly when at least half of it is over light ones.\<close>

lemma dark_share: "(\<not> 0.5 < d / (d + l)) = (0.5 \<le> l / (d + l))" if "0 < d + l" for d l :: real
  using that by (simp add: field_simps) linarith

lemma CustomScrollbar_updateScrollbar_value:
  fixes w :: window and c sb :: CustomScrollbar
  assumes "docHeight w \<noteq> 0"
  defines "trackHeight \<equiv> innerHeight w - (if isEdge c then 10 else 4)"
  defines "px \<equiv> max (innerHeight w / docHeight w * trackHeight) 40"
  defines "t \<equiv> thumbTop c + (if isEdge c then 5 else 2)"
  shows "CustomScrollbar_updateScrollbar c w sb =
      Some (sb\<lparr>thumbHeight := px,
               thumbTop := (if docHeight w \<le> innerHeight w then 0
                  else scrollY w / (docHeight w - innerHeight w) * (trackHeight - px)),
               isLight :=
                 (if 0 < dark_overlap t (t + px) (sections w) + light_overlap t (t + px) (sections w)
                  then 0.5 < dark_overlap t (t + px) (sections w)
                         / (dark_overlap t (t + px) (sections w) + light_overlap t (t + px) (sections w))
                  else isLight sb)\<rparr>)"
  using assms(1) unfolding trackHeight_def px_def t_def
  by (simp add: CustomScrollbar_updateScrollbar_def js_div_def Let_def not_less
      forEach_section_sums case_prod_unfold)

text \<open>
  Claim C2, as the claim states it, fails for the page-level scrollbar, whose thumb is
  sized against the track (the viewport height less a padding), not against the viewport
  height: for a document of 1000 in a window of 500 the thumb is 248 long, not 250.
\<close>

theorem page_thumb_length_counterexample:
  "map_option thumbHeight (CustomScrollbar_updateScrollbar CustomScrollbar_initial
      \<lparr>docHeight = 1000, innerHeight = 500, scrollY = 0, sections = []\<rparr> CustomScrollbar_initial)
     = Some 248
   \<and> max (500 / 1000 * 500) 40 = (250 :: real)"
  by (simp add: CustomScrollbar_updateScrollbar_def CustomScrollbar_initial_def js_div_def Let_def)

text \<open>
  Claim C2, amended. For every sample with \<open>contentExtent > 0\<close>, the viewer's scrollbar
  has \<open>thumbLength = max((visibleExtent / contentExtent) * visibleExtent, 40)\<close> and
  \<open>thumbOffset = (scrollOffset / (contentExtent - visibleExtent)) * (visibleExtent - thumbLength)\<close>,
  0 when \<open>contentExtent <= visibleExtent\<close>. The page-level scrollbar has the same
  geometry with the track height (the viewport height less 4, or less 10 on Edge) in place
  of the second \<open>visibleExtent\<close> of the length and of the \<open>visibleExtent\<close> of the
  offset. In both the length is at least 40, and at the maximum scroll offset the thumb is
  flush with the end of its range (\<open>visibleExtent - thumbLength\<close>, for the page-level
  scrollbar \<open>trackHeight - thumbLength\<close>).
\<close>

theorem thumb_geometry:
  fixes w :: window and c sb :: CustomScrollbar and st :: PdfViewer and a :: element
  defines "trackHeight \<equiv> innerHeight w - (if isEdge c then 10 else 4)"
  shows
   "(scrollAreaRef st = Some a \<and> 0 < scrollHeight a \<longrightarrow>
      (\<exists>st'. PdfViewer_updateScrollbar st = Some st'
        \<and> thumbHeight st' = max (clientHeight a / scrollHeight a * clientHeight a) 40
        \<and> thumbTop st' = (if scrollHeight a \<le> clientHeight a then 0
             else scrollTop a / (scrollHeight a - clientHeight a) * (clientHeight a - thumbHeight st'))
        \<and> 40 \<le> thumbHeight st'
        \<and> (clientHeight a < scrollHeight a \<and> scrollTop a = scrollHeight a - clientHeight a
             \<longrightarrow> thumbTop st' = clientHeight a - thumbHeight st')))
    \<and> (0 < docHeight w \<longrightarrow>
      (\<exists>sb'. CustomScrollbar_updateScrollbar c w sb = Some sb'
        \<and> thumbHeight sb' = max (innerHeight w / docHeight w * trackHeight) 40
        \<and> thumbTop sb' = (if docHeight w \<le> innerHeight w then 0
             else scrollY w / (docHeight w - innerHeight w) * (trackHeight - thumbHeight sb'))
        \<and> 40 \<le> thumbHeight sb'
        \<and> (innerHeight w < docHeight w \<and> scrollY w = docHeight w - innerHeight w
             \<longrightarrow> thumbTop sb' = trackHeight - thumbHeight sb')))"
proof (intro conjI impI)
  assume "scrollAreaRef st = Some a \<and> 0 < scrollHeight a"
  then have "PdfViewer_updateScrollbar st =
      Some (st\<lparr>thumbHeight := max (clientHeight a / scrollHeight a * clientHeight a) 40,
               thumbTop := (if scrollHeight a \<le> clientHeight a then 0
                  else scrollTop a / (scrollHeight a - clientHeight a)
                     * (clientHeight a - max (clientHeight a / scrollHeight a * clientHeight a) 40))\<rparr>)"
    by (simp add: PdfViewer_updateScrollbar_value)
  then show "\<exists>st'. PdfViewer_updateScrollbar st = Some st'
        \<and> thumbHeight st' = max (clientHeight a / scrollHeight a * clientHeight a) 40
        \<and> thumbTop st' = (if scrollHeight a \<le> clientHeight a then 0
             else scrollTop a / (scrollHeight a - clientHeight a) * (clientHeight a - thumbHeight st'))
        \<and> 40 \<le> thumbHeight st'
        \<and> (clientHeight a < scrollHeight a \<and> scrollTop a = scrollHeight a - clientHeight a
             \<longrightarrow> thumbTop st' = clientHeight a - thumbHeight st')"
    by simp
next
  assume "0 < docHeight w"
  then have "docHeight w \<noteq> 0" by simp
  from CustomScrollbar_updateScrollbar_value [OF this, of c sb]
  show "\<exists>sb'. CustomScrollbar_updateScrollbar c w sb = Some sb'
        \<and> thumbHeight sb' = max (innerHeight w / docHeight w * trackHeight) 40
        \<and> thumbTop sb' = (if docHeight w \<le> innerHeight w then 0
             else scrollY w / (docHeight w - innerHeight w) * (trackHeight - thumbHeight sb'))
        \<and> 40 \<le> thumbHeight sb'
        \<and> (innerHeight w < docHeight w \<and> scrollY w = docHeight w - innerHeight w
             \<longrightarrow> thumbTop sb' = trackHeight - thumbHeight sb')"
    unfolding trackHeight_def by simp
qed

text \<open>
  The geometry at the sample of the specification (content 1000, visible 250, scrolled
  to the end) and, for the page-level scrollbar, at a document long enough for the
  40-unit floor.
\<close>

theorem thumb_geometry_witness:
  "map_option thumbHeight (PdfViewer_updateScrollbar (PdfViewer_mounted
      \<lparr>scrollHeight = 600, clientHeight = 600, scrollTop = 0, scrollWidth = 400, clientWidth = 400, scrollLeft = 0\<rparr>
      \<lparr>scrollHeight = 1000, clientHeight = 250, scrollTop = 750, scrollWidth = 400, clientWidth = 400, scrollLeft = 0\<rparr>))
     = Some 62.5
   \<and> map_option thumbTop (PdfViewer_updateScrollbar (PdfViewer_mounted
      \<lparr>scrollHeight = 600, clientHeight = 600, scrollTop = 0, scrollWidth = 400, clientWidth = 400, scrollLeft = 0\<rparr>
      \<lparr>scrollHeight = 1000, clientHeight = 250, scrollTop = 750, scrollWidth = 400, clientWidth = 400, scrollLeft = 0\<rparr>))
     = Some (250 - 62.5)
   \<and> map_option thumbHeight (CustomScrollbar_updateScrollbar CustomScrollbar_initial
      \<lparr>docHeight = 100000, innerHeight = 500, scrollY = 99500, sections = []\<rparr> CustomScrollbar_initial)
     = Some 40
   \<and> map_option thumbTop (CustomScrollbar_updateScrollbar CustomScrollbar_initial
      \<lparr>docHeight = 100000, innerHeight = 500, scrollY = 99500, sections = []\<rparr> CustomScrollbar_initial)
     = Some (496 - 40)"
  using thumb_geometry [of
      "PdfViewer_mounted
        \<lparr>scrollHeight = 600, clientHeight = 600, scrollTop = 0, scrollWidth = 400, clientWidth = 400, scrollLeft = 0\<rparr>
        \<lparr>scrollHeight = 1000, clientHeight = 250, scrollTop = 750, scrollWidth = 400, clientWidth = 400, scrollLeft = 0\<rparr>"
      "\<lparr>scrollHeight = 1000, clientHeight = 250, scrollTop = 750, scrollWidth = 400, clientWidth = 400, scrollLeft = 0\<rparr>"
      "\<lparr>docHeight = 100000, innerHeight = 500, scrollY = 99500, sections = []\<rparr>"
      CustomScrollbar_initial CustomScrollbar_initial]
  by (auto simp: PdfViewer_mounted_def CustomScrollbar_initial_def)


subsection \<open>Dragging a thumb\<close>

lemma PdfViewer_handleMouseMove_value:
  assumes "isDragging st" and "scrollAreaRef st = Some a" and "thumbHeight st \<noteq> clientHeight a"
  shows "PdfViewer_handleMouseMove st y =
     Some (st\<lparr>scrollAreaRef := Some (a\<lparr>scrollTop :=
        dragStartScroll st
          + (y - dragStartY st) / (clientHeight a - thumbHeight st) * (scrollHeight a - clientHeight a)\<rparr>)\<rparr>)"
  using assms by (simp add: PdfViewer_handleMouseMove_def js_div_def Let_def)

lemma CustomScrollbar_handleMouseMove_value:
  assumes "isDragging sb" and "thumbHeight sb \<noteq> innerHeight w"
  shows "CustomScrollbar_handleMouseMove sb w y =
     Some (w\<lparr>scrollY :=
        dragStartScroll sb
          + (y - dragStartY sb) / (innerHeight w - thumbHeight sb) * (docHeight w - innerHeight w)\<rparr>)"
  using assms by (simp add: CustomScrollbar_handleMouseMove_def js_div_def Let_def)

text \<open>
  A drag: the pointer goes down on the thumb at \<open>y0\<close> and moves to \<open>y0 + dy\<close>. Either
  handler writes the scroll offset of the pointer-down plus \<open>dy\<close> times the scroll range
  over the visible extent less the thumb length.
\<close>

lemma PdfViewer_drag:
  assumes "scrollAreaRef st0 = Some a" and "thumbHeight st0 \<noteq> clientHeight a"
  shows "Option.bind (PdfViewer_handleMouseMove (PdfViewer_handleThumbMouseDown st0 y0) (y0 + dy))
           (\<lambda>st. map_option scrollTop (scrollAreaRef st))
       = Some (scrollTop a + dy / (clientHeight a - thumbHeight st0) * (scrollHeight a - clientHeight a))"
proof -
  have "isDragging (PdfViewer_handleThumbMouseDown st0 y0)"
    "scrollAreaRef (PdfViewer_handleThumbMouseDown st0 y0) = Some a"
    "thumbHeight (PdfViewer_handleThumbMouseDown st0 y0) = thumbHeight st0"
    "dragStartScroll (PdfViewer_handleThumbMouseDown st0 y0) = scrollTop a"
    "dragStartY (PdfViewer_handleThumbMouseDown st0 y0) = y0"
    using assms(1) by (simp_all add: PdfViewer_handleThumbMouseDown_def)
  with assms(2) show ?thesis
    by (simp add: PdfViewer_handleMouseMove_value)
qed

lemma CustomScrollbar_drag:
  assumes "thumbHeight sb0 \<noteq> innerHeight w"
  shows "map_option scrollY
           (CustomScrollbar_handleMouseMove (CustomScrollbar_handleMouseDown sb0 w y0) w (y0 + dy))
       = Some (scrollY w + dy / (innerHeight w - thumbHeight sb0) * (docHeight w - innerHeight w))"
proof -
  have "isDragging (CustomScrollbar_handleMouseDown sb0 w y0)"
    "thumbHeight (CustomScrollbar_handleMouseDown sb0 w y0) = thumbHeight sb0"
    "dragStartScroll (CustomScrollbar_handleMouseDown sb0 w y0) = scrollY w"
    "dragStartY (CustomScrollbar_handleMouseDown sb0 w y0) = y0"
    by (simp_all add: CustomScrollbar_handleMouseDown_def)
  with assms show ?thesis
    by (simp add: CustomScrollbar_handleMouseMove_value)
qed

text \<open>
  In the viewer the divisor is the thumb's travel: \<open>updateScrollbar\<close> moves the thumb
  over the client height less the thumb length, so a drag of the thumb over its whole
  travel scrolls over the whole range.
\<close>

lemma PdfViewer_drag_full_travel:
  assumes "scrollAreaRef st = Some a" and "0 < scrollHeight a"
    and "clientHeight a < scrollHeight a" and "scrollTop a = 0"
    and "PdfViewer_updateScrollbar st = Some st0" and "thumbHeight st0 < clientHeight a"
  shows "Option.bind
           (PdfViewer_handleMouseMove (PdfViewer_handleThumbMouseDown st0 y0)
              (y0 + (clientHeight a - thumbHeight st0)))
           (\<lambda>st. map_option scrollTop (scrollAreaRef st))
       = Some (scrollHeight a - clientHeight a)"
    and "map_option thumbTop
           (PdfViewer_updateScrollbar
              (st\<lparr>scrollAreaRef := Some (a\<lparr>scrollTop := scrollHeight a - clientHeight a\<rparr>)\<rparr>))
       = Some (clientHeight a - thumbHeight st0)"
proof -
  from assms(1,2,5) have st0: "scrollAreaRef st0 = Some a"
    "thumbHeight st0 = max (clientHeight a / scrollHeight a * clientHeight a) 40"
    by (auto simp: PdfViewer_updateScrollbar_value)
  from PdfViewer_drag [OF st0(1), of y0 "clientHeight a - thumbHeight st0"] assms(4,6)
  show "Option.bind
           (PdfViewer_handleMouseMove (PdfViewer_handleThumbMouseDown st0 y0)
              (y0 + (clientHeight a - thumbHeight st0)))
           (\<lambda>st. map_option scrollTop (scrollAreaRef st))
       = Some (scrollHeight a - clientHeight a)"
    by simp
  have "scrollAreaRef (st\<lparr>scrollAreaRef := Some (a\<lparr>scrollTop := scrollHeight a - clientHeight a\<rparr>)\<rparr>)
      = Some (a\<lparr>scrollTop := scrollHeight a - clientHeight a\<rparr>)"
    by simp
  from PdfViewer_updateScrollbar_value [OF this] assms(2,3)
  show "map_option thumbTop
           (PdfViewer_updateScrollbar
              (st\<lparr>scrollAreaRef := Some (a\<lparr>scrollTop := scrollHeight a - clientHeight a\<rparr>)\<rparr>))
       = Some (clientHeight a - thumbHeight st0)"
    by (simp add: st0(2))
qed



subsection \<open>Thumb theming\<close>


text \<open>
  Apart from the even split, the handler does not look at the thumb's current span at
  most events: the \<open>thumbTop\<close> it reads is the state of the render that registered it
  (the effect's dependencies are \<open>[isEdge]\<close>), not the value it has just set. On a
  page of three sections of height 1000 in a window of 1000, scrolled by 750, the thumb
  is drawn from 251 to 583, all of it over the second, dark-tagged section, while the
  handler registered at the mount examines the span from 2 to 334, most of it over the
  grid section, and styles the thumb for dark backgrounds.
\<close>

lemma stale_thumb_span_remark:
  "map_option (\<lambda>sb. (thumbTop sb, thumbHeight sb, thumb_class sb))
     (CustomScrollbar_updateScrollbar CustomScrollbar_initial
        \<lparr>docHeight = 3000, innerHeight = 1000, scrollY = 750,
         sections = [\<lparr>rect_top = - 750, rect_bottom = 250, grid_section = True\<rparr>,
                     \<lparr>rect_top = 250, rect_bottom = 1250, grid_section = False\<rparr>,
                     \<lparr>rect_top = 1250, rect_bottom = 2250, grid_section = False\<rparr>]\<rparr>
        CustomScrollbar_initial)
     = Some (249, 332, ''on-dark'')
   \<and> light_overlap (249 + 2) (249 + 2 + 332)
        [\<lparr>rect_top = - 750, rect_bottom = 250, grid_section = True\<rparr>,
         \<lparr>rect_top = 250, rect_bottom = 1250, grid_section = False\<rparr>,
         \<lparr>rect_top = 1250, rect_bottom = 2250, grid_section = False\<rparr>] = 0
   \<and> dark_overlap (249 + 2) (249 + 2 + 332)
        [\<lparr>rect_top = - 750, rect_bottom = 250, grid_section = True\<rparr>,
         \<lparr>rect_top = 250, rect_bottom = 1250, grid_section = False\<rparr>,
         \<lparr>rect_top = 1250, rect_bottom = 2250, grid_section = False\<rparr>] = 332
   \<and> light_overlap 2 334
        [\<lparr>rect_top = - 750, rect_bottom = 250, grid_section = True\<rparr>,
         \<lparr>rect_top = 250, rect_bottom = 1250, grid_section = False\<rparr>,
         \<lparr>rect_top = 1250, rect_bottom = 2250, grid_section = False\<rparr>] = 248
   \<and> dark_overlap 2 334
        [\<lparr>rect_top = - 750, rect_bottom = 250, grid_section = True\<rparr>,
         \<lparr>rect_top = 250, rect_bottom = 1250, grid_section = False\<rparr>,
         \<lparr>rect_top = 1250, rect_bottom = 2250, grid_section = False\<rparr>] = 84"
  by (simp add: CustomScrollbar_updateScrollbar_def CustomScrollbar_initial_def js_div_def
      Let_def overlap_def thumb_class_def light_overlap_def dark_overlap_def)




subsection \<open>Wheel routing\<close>













subsection \<open>Render run\<close>

lemma cancel_previous_fields:
  "canvasRef (cancel_previous st) = canvasRef st"
  "containerRef (cancel_previous st) = containerRef st"
  "scrollAreaRef (cancel_previous st) = scrollAreaRef st"
  "pdfDocRef (cancel_previous st) = pdfDocRef st"
  "console_error (cancel_previous st) = console_error st"
  "zoom (cancel_previous st) = zoom st"
  "renderTaskRef (cancel_previous st) = None"
  by (simp_all add: cancel_previous_def split: option.splits)

lemma catch_block_fields:
  "canvasRef (catch_block error st) = canvasRef st"
  "console_error (catch_block error st) = console_error st @ (if should_log error then [error] else [])"
  by (simp_all add: catch_block_def)

lemma renderPdf_ready:
  assumes "canvasRef st = Some cv0" and "containerRef st = Some container"
    and "clientHeight container \<noteq> 0" and "clientWidth container \<noteq> 0"
    and "\<not> isCancelled (cancelled env) 0"
  shows "renderPdf env st =
     (case try_body env (clientHeight container) (cancel_previous st) of
        None \<Rightarrow> None
      | Some (None, st') \<Rightarrow> Some (None, st')
      | Some (Some error, st') \<Rightarrow> Some (None, catch_block error st'))"
  using assms by (simp add: renderPdf_def enter_def container_height_def Let_def)

lemma renderPdf_no_escape:
  "renderPdf env st = Some (escaped, st') \<Longrightarrow> escaped = None"
  by (auto simp: renderPdf_def enter_def Let_def split: step.splits option.splits if_splits prod.splits)

lemma isCancelled_mono: "isCancelled c m \<Longrightarrow> m \<le> n \<Longrightarrow> isCancelled c n"
  by (cases c) simp_all

lemma centre_and_update_defined:
  assumes "scrollAreaRef st = None \<or> scrollHeight (laid_out env) \<noteq> 0"
  shows "\<exists>st'. centre_and_update env st = Some st' \<and> canvasRef st' = canvasRef st
     \<and> console_error st' = console_error st"
  using assms
  by (auto simp: centre_and_update_def PdfViewer_updateScrollbar_def js_div_def Let_def
      split: option.splits)

lemma rasterize_defined:
  assumes "vp_height (page 1) \<noteq> 0"
    and "scrollAreaRef st = None \<or> scrollHeight (laid_out env) \<noteq> 0"
  shows "\<exists>r. rasterize env h page st = Some r"
proof -
  have "\<exists>st''. centre_and_update env st' = Some st''"
    if "scrollAreaRef st' = scrollAreaRef st" for st' :: PdfViewer
    using centre_and_update_defined [of st' env] assms(2) that by auto
  then have f: "\<exists>s. finish_render flag env st' = Some s"
    if "scrollAreaRef st' = scrollAreaRef st" for st' :: PdfViewer and flag
    using that by (auto simp: finish_render_def Let_def)
  have "\<exists>s. start_render flag env h page st = Some s" for flag
    using assms(1)
    by (simp add: start_render_def double_div_def js_div_def Let_def split: option.splits sum.splits)
  then obtain s where s: "start_render (isCancelled (cancelled env) 2) env h page st = Some s"
    by blast
  show ?thesis
  proof (cases s)
    case (Returned st1)
    with s show ?thesis by (simp add: rasterize_def)
  next
    case (Threw error st2)
    with s show ?thesis by (simp add: rasterize_def)
  next
    case (Awaiting st3)
    with s have "scrollAreaRef st3 = scrollAreaRef st"
      by (auto simp: start_render_def double_div_def js_div_def Let_def
          split: option.splits sum.splits if_splits)
    from f [OF this, of "isCancelled (cancelled env) 3"]
    obtain s' where "finish_render (isCancelled (cancelled env) 3) env st3 = Some s'"
      by blast
    with s Awaiting show ?thesis
      by (cases s') (simp_all add: rasterize_def split: option.splits)
  qed
qed

lemma try_body_defined:
  assumes "\<And>page. page_of env st page \<Longrightarrow> vp_height (page 1) \<noteq> 0"
    and "scrollAreaRef st = None \<or> scrollHeight (laid_out env) \<noteq> 0"
  shows "\<exists>r. try_body env h st = Some r"
proof (cases "pdfDocRef st")
  case None
  show ?thesis
  proof (cases "getDocument env")
    case (Inl error)
    with None show ?thesis by (simp add: try_body_def)
  next
    case (Inr pdf)
    show ?thesis
    proof (cases pdf)
      case (Inl error)
      with None \<open>getDocument env = Inr pdf\<close> show ?thesis
        by (simp add: try_body_def fetch_page_def after_load_def)
    next
      case (Inr page)
      with None \<open>getDocument env = Inr pdf\<close> have "vp_height (page 1) \<noteq> 0"
        using assms(1) [of page] by (simp add: page_of_def)
      then have "\<exists>r. rasterize env h page (st\<lparr>pdfDocRef := Some pdf\<rparr>) = Some r"
        using assms(2) by (intro rasterize_defined) simp_all
      then show ?thesis
        using None \<open>getDocument env = Inr pdf\<close> Inr
        by (auto simp: try_body_def fetch_page_def after_load_def)
    qed
  qed
next
  case (Some pdf)
  show ?thesis
  proof (cases pdf)
    case (Inl error)
    with Some show ?thesis by (simp add: try_body_def fetch_page_def)
  next
    case (Inr page)
    with Some have "vp_height (page 1) \<noteq> 0"
      using assms(1) [of page] by (simp add: page_of_def)
    then have "\<exists>r. rasterize env h page st = Some r"
      using assms(2) by (intro rasterize_defined)
    then show ?thesis
      using Some Inr by (auto simp: try_body_def fetch_page_def)
  qed
qed

lemma renderPdf_returns:
  assumes "\<And>page. page_of env st page \<Longrightarrow> vp_height (page 1) \<noteq> 0"
    and "scrollAreaRef st = None \<or> scrollHeight (laid_out env) \<noteq> 0"
  shows "\<exists>st'. renderPdf env st = Some (None, st')"
proof -
  have p: "page_of env (cancel_previous st) page = page_of env st page" for page
    by (simp add: page_of_def cancel_previous_fields)
  have "\<exists>r. try_body env h (cancel_previous st) = Some r" for h
    by (rule try_body_defined) (use assms in \<open>simp_all add: p cancel_previous_fields\<close>)
  then obtain escaped st1
    where "try_body env (container_height st) (cancel_previous st) = Some (escaped, st1)"
    by fastforce
  then have "\<exists>r. renderPdf env st = Some r"
    by (cases escaped) (simp_all add: renderPdf_def enter_def Let_def split: option.splits)
  then show ?thesis
    using renderPdf_no_escape by (metis prod.collapse)
qed


lemma outputScale_eq:
  "max 1.5 (if dpr = 0 then 1 else dpr) = max 1.5 (dpr :: real)"
  by simp

lemma rasterize_outcomes:
  fixes st :: PdfViewer and env :: render_env and page :: pdf_page and h :: real
  assumes "canvasRef st = Some cv" and "\<not> isCancelled (cancelled env) 2"
    and "getContext env" and "vp_height (page 1) \<noteq> 0"
  defines "displayScale \<equiv> double_times (to_double (h / vp_height (page 1))) (zoom st)"
  defines "renderScale \<equiv> double_times displayScale (max 1.5 (devicePixelRatio env))"
  defines "cv1 \<equiv> cv\<lparr>canvas_width := \<lfloor>vp_width (page renderScale)\<rfloor>,
                      canvas_height := \<lfloor>vp_height (page renderScale)\<rfloor>,
                      style_width := Some (vp_width (page displayScale)),
                      style_height := Some (vp_height (page displayScale)),
                      bitmap := White\<rparr>"
  shows "page_render env = Inl error \<Longrightarrow>
           \<exists>st'. rasterize env h page st = Some (Some error, st')
             \<and> canvasRef st' = Some cv1 \<and> console_error st' = console_error st"
    and "page_render env = Inr task \<Longrightarrow> render_promise env = Some error \<Longrightarrow>
           \<exists>st'. rasterize env h page st = Some (Some error, st')
             \<and> canvasRef st' = Some (cv1\<lparr>bitmap := Unfinished renderScale\<rparr>)
             \<and> console_error st' = console_error st"
    and "page_render env = Inr task \<Longrightarrow> render_promise env = None \<Longrightarrow>
         scrollAreaRef st = None \<or> scrollHeight (laid_out env) \<noteq> 0 \<Longrightarrow>
           \<exists>st'. rasterize env h page st = Some (None, st')
             \<and> canvasRef st' = Some (cv1\<lparr>bitmap := Page renderScale\<rparr>)
             \<and> console_error st' = console_error st"
proof -
  assume "page_render env = Inl error"
  with assms(1-4) show "\<exists>st'. rasterize env h page st = Some (Some error, st')
             \<and> canvasRef st' = Some cv1 \<and> console_error st' = console_error st"
    unfolding displayScale_def renderScale_def cv1_def
    by (simp add: rasterize_def start_render_def double_div_def js_div_def Let_def)
next
  assume "page_render env = Inr task" "render_promise env = Some error"
  with assms(1-4) show "\<exists>st'. rasterize env h page st = Some (Some error, st')
             \<and> canvasRef st' = Some (cv1\<lparr>bitmap := Unfinished renderScale\<rparr>)
             \<and> console_error st' = console_error st"
    unfolding displayScale_def renderScale_def cv1_def
    by (simp add: rasterize_def start_render_def double_div_def js_div_def Let_def)
next
  assume a: "page_render env = Inr task" "render_promise env = None"
    "scrollAreaRef st = None \<or> scrollHeight (laid_out env) \<noteq> 0"
  define st4 where "st4 = st\<lparr>baseScaleRef := to_double (h / vp_height (page 1)),
      canvasRef := Some (cv1\<lparr>bitmap := Page renderScale\<rparr>), renderTaskRef := None\<rparr>"
  have r: "rasterize env h page st =
      (if isCancelled (cancelled env) 3 then Some (None, st4)
       else map_option (Pair None) (centre_and_update env st4))"
    using assms(1-4) a(1,2)
    unfolding displayScale_def renderScale_def cv1_def st4_def
    by (simp add: rasterize_def start_render_def finish_render_def completed_def double_div_def
        js_div_def Let_def split: option.splits)
  have "scrollAreaRef st4 = None \<or> scrollHeight (laid_out env) \<noteq> 0"
    using a(3) by (simp add: st4_def)
  from centre_and_update_defined [OF this]
  obtain st5 where "centre_and_update env st4 = Some st5" "canvasRef st5 = canvasRef st4"
    "console_error st5 = console_error st4"
    by blast
  with r show "\<exists>st'. rasterize env h page st = Some (None, st')
             \<and> canvasRef st' = Some (cv1\<lparr>bitmap := Page renderScale\<rparr>)
             \<and> console_error st' = console_error st"
    by (auto simp: st4_def)
qed


lemma try_body_reaches_rasterize:
  assumes "page_of env st page" and "\<not> isCancelled (cancelled env) 2"
  shows "\<exists>st1. try_body env h st = rasterize env h page st1
     \<and> canvasRef st1 = canvasRef st \<and> console_error st1 = console_error st
     \<and> zoom st1 = zoom st \<and> scrollAreaRef st1 = scrollAreaRef st"
proof -
  have c: "\<not> isCancelled (cancelled env) 0" "\<not> isCancelled (cancelled env) 1"
    using assms(2) by (cases "cancelled env"; simp)+
  from assms(1) consider "pdfDocRef st = Some (Inr page)"
    | "pdfDocRef st = None" "getDocument env = Inr (Inr page)"
    by (auto simp: page_of_def)
  then show ?thesis
  proof cases
    case 1
    with c assms(2) have "try_body env h st = rasterize env h page st"
      by (simp add: try_body_def fetch_page_def)
    then show ?thesis by blast
  next
    case 2
    with c assms(2) have "try_body env h st = rasterize env h page (st\<lparr>pdfDocRef := Some (Inr page)\<rparr>)"
      by (simp add: try_body_def fetch_page_def after_load_def)
    then show ?thesis by (intro exI [of _ "st\<lparr>pdfDocRef := Some (Inr page)\<rparr>"]) simp
  qed
qed

lemma renderPdf_reaches_rasterize:
  assumes "canvasRef st = Some cv0" and "containerRef st = Some container"
    and "clientHeight container \<noteq> 0" and "clientWidth container \<noteq> 0"
    and "page_of env st page" and "\<not> isCancelled (cancelled env) 2"
  shows "\<exists>st1. renderPdf env st =
       (case rasterize env (clientHeight container) page st1 of
          None \<Rightarrow> None
        | Some (None, st') \<Rightarrow> Some (None, st')
        | Some (Some error, st') \<Rightarrow> Some (None, catch_block error st'))
     \<and> canvasRef st1 = Some cv0 \<and> console_error st1 = console_error st
     \<and> zoom st1 = zoom st \<and> scrollAreaRef st1 = scrollAreaRef st"
proof -
  have c: "\<not> isCancelled (cancelled env) 0"
    using assms(6) by (cases "cancelled env"; simp)
  have "page_of env (cancel_previous st) page"
    using assms(5) by (simp add: page_of_def cancel_previous_fields)
  from try_body_reaches_rasterize [OF this assms(6), of "clientHeight container"]
  obtain st1 where "try_body env (clientHeight container) (cancel_previous st)
        = rasterize env (clientHeight container) page st1"
    "canvasRef st1 = canvasRef (cancel_previous st)"
    "console_error st1 = console_error (cancel_previous st)"
    "zoom st1 = zoom (cancel_previous st)"
    "scrollAreaRef st1 = scrollAreaRef (cancel_previous st)"
    by blast
  then show ?thesis
    using renderPdf_ready [OF assms(1-4) c] assms(1)
    by (intro exI [of _ st1]) (simp add: cancel_previous_fields)
qed

lemma ready_run:
  assumes "ready env st"
  shows "renderPdf env st =
     (case try_body env (container_height st) (cancel_previous st) of
        None \<Rightarrow> None
      | Some (None, st') \<Rightarrow> Some (None, st')
      | Some (Some error, st') \<Rightarrow> Some (None, catch_block error st'))"
  using assms
  by (auto simp: ready_def container_height_def renderPdf_ready split: option.splits)

lemma load_error_caught:
  assumes "ready env st" and "pdfDocRef st = None" and "getDocument env = Inl error"
  shows "renderPdf env st = Some (None, catch_block error (cancel_previous st))"
  using assms by (simp add: ready_run try_body_def cancel_previous_fields)

lemma getPage_error_caught:
  assumes "ready env st"
    and "pdfDocRef st = Some (Inl error)
       \<or> pdfDocRef st = None \<and> getDocument env = Inr (Inl error) \<and> \<not> isCancelled (cancelled env) 1"
  shows "\<exists>st1. renderPdf env st = Some (None, catch_block error st1)
     \<and> canvasRef st1 = canvasRef st \<and> console_error st1 = console_error st"
proof -
  have c: "\<not> isCancelled (cancelled env) 0"
    using assms(1) by (simp add: ready_def)
  from assms(2) show ?thesis
  proof
    assume "pdfDocRef st = Some (Inl error)"
    with assms(1) c have "renderPdf env st = Some (None, catch_block error (cancel_previous st))"
      by (simp add: ready_run try_body_def fetch_page_def cancel_previous_fields)
    then show ?thesis
      by (intro exI [of _ "cancel_previous st"]) (simp add: cancel_previous_fields)
  next
    assume "pdfDocRef st = None \<and> getDocument env = Inr (Inl error) \<and> \<not> isCancelled (cancelled env) 1"
    with assms(1) have "renderPdf env st =
        Some (None, catch_block error ((cancel_previous st)\<lparr>pdfDocRef := Some (Inl error)\<rparr>))"
      by (simp add: ready_run try_body_def fetch_page_def after_load_def cancel_previous_fields)
    then show ?thesis
      by (intro exI [of _ "(cancel_previous st)\<lparr>pdfDocRef := Some (Inl error)\<rparr>"])
        (simp add: cancel_previous_fields)
  qed
qed

lemma render_error_caught:
  fixes st :: PdfViewer and env :: render_env and page :: pdf_page
  assumes "ready env st" and "page_of env st page" and "vp_height (page 1) \<noteq> 0"
    and "\<not> isCancelled (cancelled env) 2" and "getContext env"
    and "page_render env = Inl error \<or> page_render env = Inr task \<and> render_promise env = Some error"
  defines "displayScale \<equiv>
      double_times (to_double (container_height st / vp_height (page 1))) (zoom st)"
  defines "renderScale \<equiv> double_times displayScale (max 1.5 (devicePixelRatio env))"
  shows "\<exists>st' cv. renderPdf env st = Some (None, st') \<and> canvasRef st' = Some cv
     \<and> console_error st' = console_error st @ (if should_log error then [error] else [])
     \<and> canvas_width cv = \<lfloor>vp_width (page renderScale)\<rfloor>
     \<and> canvas_height cv = \<lfloor>vp_height (page renderScale)\<rfloor>
     \<and> style_width cv = Some (vp_width (page displayScale))
     \<and> style_height cv = Some (vp_height (page displayScale))
     \<and> bitmap cv = (if page_render env = Inl error then White else Unfinished renderScale)"
proof -
  from assms(1) obtain cv0 container where r: "canvasRef st = Some cv0"
    "containerRef st = Some container" "clientHeight container \<noteq> 0" "clientWidth container \<noteq> 0"
    by (auto simp: ready_def split: option.splits)
  then have h: "container_height st = clientHeight container"
    by (simp add: container_height_def)
  from renderPdf_reaches_rasterize [OF r assms(2,4)]
  obtain st1 where st1: "renderPdf env st =
       (case rasterize env (clientHeight container) page st1 of
          None \<Rightarrow> None
        | Some (None, st') \<Rightarrow> Some (None, st')
        | Some (Some error, st') \<Rightarrow> Some (None, catch_block error st'))"
     "canvasRef st1 = Some cv0" "zoom st1 = zoom st" "console_error st1 = console_error st"
    by blast
  from assms(6) show ?thesis
  proof
    assume a: "page_render env = Inl error"
    with rasterize_outcomes(1) [where st = st1 and cv = cv0 and env = env and page = page
        and error = error and h = "clientHeight container"] st1(2) assms(3,4,5)
    obtain st2 where "rasterize env (clientHeight container) page st1 = Some (Some error, st2)"
      "canvasRef st2 = Some (cv0\<lparr>canvas_width := \<lfloor>vp_width (page renderScale)\<rfloor>,
                      canvas_height := \<lfloor>vp_height (page renderScale)\<rfloor>,
                      style_width := Some (vp_width (page displayScale)),
                      style_height := Some (vp_height (page displayScale)),
                      bitmap := White\<rparr>)"
      "console_error st2 = console_error st1"
      unfolding renderScale_def displayScale_def h st1(3) by auto
    with st1(1,4) a show ?thesis
      by (simp add: catch_block_fields)
  next
    assume a: "page_render env = Inr task \<and> render_promise env = Some error"
    with rasterize_outcomes(2) [where st = st1 and cv = cv0 and env = env and page = page
        and error = error and task = task and h = "clientHeight container"] st1(2) assms(3,4,5)
    obtain st2 where "rasterize env (clientHeight container) page st1 = Some (Some error, st2)"
      "canvasRef st2 = Some (cv0\<lparr>canvas_width := \<lfloor>vp_width (page renderScale)\<rfloor>,
                      canvas_height := \<lfloor>vp_height (page renderScale)\<rfloor>,
                      style_width := Some (vp_width (page displayScale)),
                      style_height := Some (vp_height (page displayScale)),
                      bitmap := Unfinished renderScale\<rparr>)"
      "console_error st2 = console_error st1"
      unfolding renderScale_def displayScale_def h st1(3) by auto
    with st1(1,4) a show ?thesis
      by (simp add: catch_block_fields)
  qed
qed

lemma should_log_iff:
  "should_log e = (\<exists>name. e = Object (Some name) \<and> name \<noteq> ''RenderingCancelledException'')"
  by (auto simp: should_log_def split: thrown.splits option.splits)

lemma cancel_previous_ignores_throw:
  "cancel_previous (st\<lparr>renderTaskRef := Some \<lparr>task_id = n, cancel = Some e\<rparr>\<rparr>)
     = cancel_previous (st\<lparr>renderTaskRef := Some \<lparr>task_id = n, cancel = None\<rparr>\<rparr>)"
  by (simp add: cancel_previous_def)


text \<open>
  Claim C6, as the claim states it, fails by the rounding down: the canvas width is a
  floor. For a page of 612 by 792 in a container 500 high, at zoom 1 and device pixel
  ratio 1, the render viewport is a little over 579.5 wide and the canvas 579, while
  the presented width is a little over 386.36: 1.5 times the presented width is more
  than the canvas width.
\<close>

theorem canvas_ratio_counterexample:
  "map_option (\<lambda>(escaped, st'). map_option
       (\<lambda>cv. (canvas_width cv,
              map_option (\<lambda>presented. 1.5 * presented \<le> of_int (canvas_width cv)) (style_width cv)))
       (canvasRef st'))
     (renderPdf
        \<lparr>devicePixelRatio = 1, getDocument = Inr (Inr (linear_page 612 792)), getContext = True,
         page_render = Inr \<lparr>task_id = 1, cancel = None\<rparr>, render_promise = None, cancelled = Never,
         laid_out = \<lparr>scrollHeight = 500, clientHeight = 500, scrollTop = 0,
                     scrollWidth = 800, clientWidth = 800, scrollLeft = 0\<rparr>\<rparr>
        (PdfViewer_mounted
           \<lparr>scrollHeight = 500, clientHeight = 500, scrollTop = 0,
            scrollWidth = 800, clientWidth = 800, scrollLeft = 0\<rparr>
           \<lparr>scrollHeight = 500, clientHeight = 500, scrollTop = 0,
            scrollWidth = 800, clientWidth = 800, scrollLeft = 0\<rparr>))
     = Some (Some (579, Some False))"
  by (simp add: renderPdf_def enter_def container_height_def PdfViewer_mounted_def
      cancel_previous_def try_body_def after_load_def fetch_page_def rasterize_def
      start_render_def finish_render_def completed_def js_div_def Let_def linear_page_def
      centre_and_update_def PdfViewer_updateScrollbar_def double_times_def double_div_def)
    (simp add: double_arith)


text \<open>
  Claim C6, amended. On every successful render (the cleanup has not run by the time
  the page is fetched, and the render task's promise resolves) the canvas's pixel
  dimensions are the floor of the page viewport at \<open>renderScale = displayScale * outputScale\<close> with
  \<open>outputScale = max(1.5, devicePixelRatio)\<close>, and its presented (CSS) size is the
  page viewport at \<open>displayScale = (containerHeight / unscaledPageHeight) * zoom\<close>, the
  quotient and the products each rounded to a double. Consequently, for a viewport
  whose dimensions are the page's dimensions times the scale, each dimension of the
  render viewport is at least \<open>1.5 * (1 - 3 * 2^-53)\<close> times the presented one, and each
  pixel dimension of the canvas, its floor, exceeds that product less one pixel.
\<close>

theorem render_sizes_canvas:
  fixes st :: PdfViewer and env :: render_env and page :: pdf_page and container :: element
  assumes "canvasRef st = Some before" and "containerRef st = Some container"
    and "clientHeight container \<noteq> 0" and "clientWidth container \<noteq> 0"
    and "page_of env st page" and "vp_height (page 1) \<noteq> 0"
    and "\<not> isCancelled (cancelled env) 2" and "getContext env"
    and "page_render env = Inr task" and "render_promise env = None"
    and "scrollAreaRef st = None \<or> scrollHeight (laid_out env) \<noteq> 0"
  defines "displayScale \<equiv>
      double_times (to_double (clientHeight container / vp_height (page 1))) (zoom st)"
  defines "outputScale \<equiv> max 1.5 (devicePixelRatio env)"
  defines "renderScale \<equiv> double_times displayScale outputScale"
  shows "\<exists>st' cv. renderPdf env st = Some (None, st') \<and> canvasRef st' = Some cv
      \<and> bitmap cv = Page renderScale
      \<and> canvas_width cv = \<lfloor>vp_width (page renderScale)\<rfloor>
      \<and> canvas_height cv = \<lfloor>vp_height (page renderScale)\<rfloor>
      \<and> style_width cv = Some (vp_width (page displayScale))
      \<and> style_height cv = Some (vp_height (page displayScale))
      \<and> 1.5 \<le> outputScale
      \<and> (page = linear_page pw ph \<and> 0 \<le> pw \<and> 0 \<le> ph \<and> 0 \<le> displayScale \<longrightarrow>
            1.5 * (1 - 3 / 2 ^ 53) * vp_width (page displayScale) \<le> vp_width (page renderScale)
          \<and> 1.5 * (1 - 3 / 2 ^ 53) * vp_height (page displayScale) \<le> vp_height (page renderScale)
          \<and> 1.5 * (1 - 3 / 2 ^ 53) * vp_width (page displayScale) - 1 < of_int (canvas_width cv)
          \<and> 1.5 * (1 - 3 / 2 ^ 53) * vp_height (page displayScale) - 1 < of_int (canvas_height cv))"
proof -
  have c: "\<not> isCancelled (cancelled env) 2"
    by (rule assms(7))
  from renderPdf_reaches_rasterize [OF assms(1-5) c]
  obtain st1 where st1: "renderPdf env st =
       (case rasterize env (clientHeight container) page st1 of
          None \<Rightarrow> None
        | Some (None, st') \<Rightarrow> Some (None, st')
        | Some (Some error, st') \<Rightarrow> Some (None, catch_block error st'))"
     "canvasRef st1 = Some before" "zoom st1 = zoom st" "scrollAreaRef st1 = scrollAreaRef st"
    by blast
  have "scrollAreaRef st1 = None \<or> scrollHeight (laid_out env) \<noteq> 0"
    using assms(11) st1(4) by simp
  with rasterize_outcomes(3) [where st = st1 and cv = before and env = env and page = page
      and task = task and h = "clientHeight container"]
    st1(2) c assms(6,8,9,10)
  obtain st' where st': "rasterize env (clientHeight container) page st1 = Some (None, st')"
    "canvasRef st' = Some (before\<lparr>canvas_width := \<lfloor>vp_width (page renderScale)\<rfloor>,
                      canvas_height := \<lfloor>vp_height (page renderScale)\<rfloor>,
                      style_width := Some (vp_width (page displayScale)),
                      style_height := Some (vp_height (page displayScale)),
                      bitmap := Page renderScale\<rparr>)"
    unfolding renderScale_def displayScale_def outputScale_def st1(3) by auto
  have lin: "1.5 * (1 - 3 / 2 ^ 53) * vp_width (page displayScale) \<le> vp_width (page renderScale)
          \<and> 1.5 * (1 - 3 / 2 ^ 53) * vp_height (page displayScale) \<le> vp_height (page renderScale)
          \<and> 1.5 * (1 - 3 / 2 ^ 53) * vp_width (page displayScale) - 1
               < of_int \<lfloor>vp_width (page renderScale)\<rfloor>
          \<and> 1.5 * (1 - 3 / 2 ^ 53) * vp_height (page displayScale) - 1
               < of_int \<lfloor>vp_height (page renderScale)\<rfloor>"
    if "page = linear_page pw ph" "0 \<le> pw" "0 \<le> ph" "0 \<le> displayScale"
  proof -
    have o: "1.5 \<le> outputScale" by (simp add: outputScale_def)
    from supersample_bound [OF that(2,4) o]
    have w: "1.5 * (1 - 3 / 2 ^ 53) * vp_width (page displayScale) \<le> vp_width (page renderScale)"
      by (simp add: that(1) linear_page_def renderScale_def)
    from supersample_bound [OF that(3,4) o]
    have h: "1.5 * (1 - 3 / 2 ^ 53) * vp_height (page displayScale) \<le> vp_height (page renderScale)"
      by (simp add: that(1) linear_page_def renderScale_def)
    from w h show ?thesis by linarith
  qed
  show ?thesis
    using st1(1) st' lin by (auto simp: outputScale_def)
qed

text \<open>
  A page of 612 by 792 in a container 600 high, at zoom 1 and device pixel ratio 1. The
  quotient 600/792 rounds to a double a little above 25/33 and its product with 1.5 to
  one a little below 25/22, so that the render viewport is a little under 900 high: the
  canvas is 695 by 899, and it is presented 600 high.
\<close>

theorem render_sizes_canvas_witness:
  "map_option (\<lambda>(escaped, st'). map_option
       (\<lambda>cv. (canvas_width cv, canvas_height cv, style_height cv)) (canvasRef st'))
     (renderPdf
        \<lparr>devicePixelRatio = 1, getDocument = Inr (Inr (linear_page 612 792)), getContext = True,
         page_render = Inr \<lparr>task_id = 1, cancel = None\<rparr>, render_promise = None, cancelled = Never,
         laid_out = \<lparr>scrollHeight = 600, clientHeight = 600, scrollTop = 0,
                     scrollWidth = 800, clientWidth = 800, scrollLeft = 0\<rparr>\<rparr>
        (PdfViewer_mounted
           \<lparr>scrollHeight = 600, clientHeight = 600, scrollTop = 0,
            scrollWidth = 800, clientWidth = 800, scrollLeft = 0\<rparr>
           \<lparr>scrollHeight = 600, clientHeight = 600, scrollTop = 0,
            scrollWidth = 800, clientWidth = 800, scrollLeft = 0\<rparr>))
     = Some (Some (695, 899, Some 600))"
  using render_sizes_canvas [where env = "\<lparr>devicePixelRatio = 1, getDocument = Inr (Inr (linear_page 612 792)), getContext = True,
         page_render = Inr \<lparr>task_id = 1, cancel = None\<rparr>, render_promise = None, cancelled = Never,
         laid_out = \<lparr>scrollHeight = 600, clientHeight = 600, scrollTop = 0,
                     scrollWidth = 800, clientWidth = 800, scrollLeft = 0\<rparr>\<rparr>"
      and st = "PdfViewer_mounted
           \<lparr>scrollHeight = 600, clientHeight = 600, scrollTop = 0,
            scrollWidth = 800, clientWidth = 800, scrollLeft = 0\<rparr>
           \<lparr>scrollHeight = 600, clientHeight = 600, scrollTop = 0,
            scrollWidth = 800, clientWidth = 800, scrollLeft = 0\<rparr>"
      and page = "linear_page 612 792" and pw = 612 and ph = 792
      and task = "\<lparr>task_id = 1, cancel = None\<rparr>"
      and before = "\<lparr>canvas_width = 300, canvas_height = 150, style_width = None,
                 style_height = None, bitmap = Blank\<rparr>"
      and container = "\<lparr>scrollHeight = 600, clientHeight = 600, scrollTop = 0,
            scrollWidth = 800, clientWidth = 800, scrollLeft = 0\<rparr>"]
  by (simp add: renderPdf_def enter_def container_height_def PdfViewer_mounted_def
      cancel_previous_def try_body_def after_load_def fetch_page_def rasterize_def
      start_render_def finish_render_def completed_def js_div_def Let_def linear_page_def
      centre_and_update_def PdfViewer_updateScrollbar_def page_of_def double_times_def
      double_div_def)
    (simp add: double_arith)

text \<open>
  Claim C7, as the claim states it, fails for an error of the render: by then the canvas
  has been resized and filled white. A viewer that shows its last render and whose next
  render task rejects is left with an unfinished bitmap, not with its last render.
\<close>

theorem render_error_counterexample:
  "map_option (\<lambda>(escaped, st'). (map_option bitmap (canvasRef st'), console_error st'))
     (renderPdf
        \<lparr>devicePixelRatio = 1, getDocument = Inr (Inr (linear_page 612 792)), getContext = True,
         page_render = Inr \<lparr>task_id = 1, cancel = None\<rparr>,
         render_promise = Some (Object (Some ''UnknownErrorException'')), cancelled = Never,
         laid_out = \<lparr>scrollHeight = 792, clientHeight = 792, scrollTop = 0,
                     scrollWidth = 800, clientWidth = 800, scrollLeft = 0\<rparr>\<rparr>
        ((PdfViewer_mounted
           \<lparr>scrollHeight = 792, clientHeight = 792, scrollTop = 0,
            scrollWidth = 800, clientWidth = 800, scrollLeft = 0\<rparr>
           \<lparr>scrollHeight = 792, clientHeight = 792, scrollTop = 0,
            scrollWidth = 800, clientWidth = 800, scrollLeft = 0\<rparr>)
         \<lparr>canvasRef := Some \<lparr>canvas_width = 918, canvas_height = 1188, style_width = Some 612,
                              style_height = Some 792, bitmap = Page 1.5\<rparr>,
          pdfDocRef := Some (Inr (linear_page 612 792))\<rparr>))
     = Some (Some (Unfinished 1.5), [Object (Some ''UnknownErrorException'')])"
  by (simp add: renderPdf_def enter_def container_height_def PdfViewer_mounted_def
      cancel_previous_def try_body_def fetch_page_def rasterize_def start_render_def
      js_div_def Let_def linear_page_def catch_block_def should_log_def double_times_def
      double_div_def)
    (simp add: double_arith)


text \<open>
  Claim C7, amended. No error leaves a run of the render effect, and a run whose
  quotients are defined returns. An error thrown by the cancel call is caught and
  discarded without being logged. A caught error is logged exactly when it is an object
  with a name other than RenderingCancelledException (a thrown value that is not an
  object, or has no name, is swallowed unlogged), and it is otherwise swallowed. After
  a load or page-fetch error the canvas is as it was before the run; after a render
  error the canvas already has the size of the new render viewport and shows the white
  fill (with the unfinished rasterisation, if the task had started).
\<close>

theorem render_errors_are_caught:
  fixes st :: PdfViewer and env :: render_env and page :: pdf_page
  defines "displayScale \<equiv>
      double_times (to_double (container_height st / vp_height (page 1))) (zoom st)"
  defines "renderScale \<equiv> double_times displayScale (max 1.5 (devicePixelRatio env))"
  shows
   "(\<forall>escaped st'. renderPdf env st = Some (escaped, st') \<longrightarrow> escaped = None)
    \<and> ((\<forall>p. page_of env st p \<longrightarrow> vp_height (p 1) \<noteq> 0)
         \<and> (scrollAreaRef st = None \<or> scrollHeight (laid_out env) \<noteq> 0)
        \<longrightarrow> (\<exists>st'. renderPdf env st = Some (None, st')))
    \<and> cancel_previous (st\<lparr>renderTaskRef := Some \<lparr>task_id = n, cancel = Some e\<rparr>\<rparr>)
        = cancel_previous (st\<lparr>renderTaskRef := Some \<lparr>task_id = n, cancel = None\<rparr>\<rparr>)
    \<and> console_error (cancel_previous st) = console_error st
    \<and> should_log error =
        (\<exists>name. error = Object (Some name) \<and> name \<noteq> ''RenderingCancelledException'')
    \<and> (ready env st
         \<and> (pdfDocRef st = None \<and> getDocument env = Inl error
            \<or> pdfDocRef st = Some (Inl error)
            \<or> pdfDocRef st = None \<and> getDocument env = Inr (Inl error)
               \<and> \<not> isCancelled (cancelled env) 1)
        \<longrightarrow> (\<exists>st'. renderPdf env st = Some (None, st')
              \<and> canvasRef st' = canvasRef st
              \<and> console_error st' = console_error st @ (if should_log error then [error] else [])))
    \<and> (ready env st \<and> page_of env st page \<and> vp_height (page 1) \<noteq> 0
         \<and> \<not> isCancelled (cancelled env) 2 \<and> getContext env
         \<and> (page_render env = Inl error
            \<or> page_render env = Inr task \<and> render_promise env = Some error)
        \<longrightarrow> (\<exists>st' cv. renderPdf env st = Some (None, st') \<and> canvasRef st' = Some cv
              \<and> console_error st' = console_error st @ (if should_log error then [error] else [])
              \<and> canvas_width cv = \<lfloor>vp_width (page renderScale)\<rfloor>
              \<and> canvas_height cv = \<lfloor>vp_height (page renderScale)\<rfloor>
              \<and> style_width cv = Some (vp_width (page displayScale))
              \<and> style_height cv = Some (vp_height (page displayScale))
              \<and> bitmap cv = (if page_render env = Inl error then White else Unfinished renderScale)))"
proof (intro conjI impI allI)
  fix escaped st'
  assume "renderPdf env st = Some (escaped, st')"
  then show "escaped = None" by (rule renderPdf_no_escape)
next
  assume "(\<forall>p. page_of env st p \<longrightarrow> vp_height (p 1) \<noteq> 0)
         \<and> (scrollAreaRef st = None \<or> scrollHeight (laid_out env) \<noteq> 0)"
  then show "\<exists>st'. renderPdf env st = Some (None, st')"
    by (intro renderPdf_returns) simp_all
next
  show "cancel_previous (st\<lparr>renderTaskRef := Some \<lparr>task_id = n, cancel = Some e\<rparr>\<rparr>)
        = cancel_previous (st\<lparr>renderTaskRef := Some \<lparr>task_id = n, cancel = None\<rparr>\<rparr>)"
    by (rule cancel_previous_ignores_throw)
  show "console_error (cancel_previous st) = console_error st"
    by (rule cancel_previous_fields)
  show "should_log error =
        (\<exists>name. error = Object (Some name) \<and> name \<noteq> ''RenderingCancelledException'')"
    by (rule should_log_iff)
next
  assume a: "ready env st
         \<and> (pdfDocRef st = None \<and> getDocument env = Inl error
            \<or> pdfDocRef st = Some (Inl error)
            \<or> pdfDocRef st = None \<and> getDocument env = Inr (Inl error)
               \<and> \<not> isCancelled (cancelled env) 1)"
  then consider "pdfDocRef st = None \<and> getDocument env = Inl error"
    | "pdfDocRef st = Some (Inl error)
        \<or> pdfDocRef st = None \<and> getDocument env = Inr (Inl error) \<and> \<not> isCancelled (cancelled env) 1"
    by blast
  then show "\<exists>st'. renderPdf env st = Some (None, st')
              \<and> canvasRef st' = canvasRef st
              \<and> console_error st' = console_error st @ (if should_log error then [error] else [])"
  proof cases
    case 1
    with a have "renderPdf env st = Some (None, catch_block error (cancel_previous st))"
      by (intro load_error_caught) simp_all
    then show ?thesis
      by (simp add: catch_block_fields cancel_previous_fields)
  next
    case 2
    with a getPage_error_caught [of env st error]
    obtain st1 where "renderPdf env st = Some (None, catch_block error st1)"
      "canvasRef st1 = canvasRef st" "console_error st1 = console_error st"
      by blast
    then show ?thesis
      by (simp add: catch_block_fields)
  qed
next
  assume "ready env st \<and> page_of env st page \<and> vp_height (page 1) \<noteq> 0
         \<and> \<not> isCancelled (cancelled env) 2 \<and> getContext env
         \<and> (page_render env = Inl error
            \<or> page_render env = Inr task \<and> render_promise env = Some error)"
  then show "\<exists>st' cv. renderPdf env st = Some (None, st') \<and> canvasRef st' = Some cv
              \<and> console_error st' = console_error st @ (if should_log error then [error] else [])
              \<and> canvas_width cv = \<lfloor>vp_width (page renderScale)\<rfloor>
              \<and> canvas_height cv = \<lfloor>vp_height (page renderScale)\<rfloor>
              \<and> style_width cv = Some (vp_width (page displayScale))
              \<and> style_height cv = Some (vp_height (page displayScale))
              \<and> bitmap cv = (if page_render env = Inl error then White else Unfinished renderScale)"
    unfolding renderScale_def displayScale_def
    by (intro render_error_caught [where task = task]) simp_all
qed

text \<open>A load that fails with an InvalidPDFException on a freshly mounted viewer: the
  error is logged, nothing leaves the run, the canvas is the blank canvas of the mount.\<close>

theorem render_errors_are_caught_witness:
  "map_option (\<lambda>(escaped, st'). (escaped, map_option bitmap (canvasRef st'), console_error st'))
     (renderPdf
        \<lparr>devicePixelRatio = 1, getDocument = Inl (Object (Some ''InvalidPDFException'')),
         getContext = True, page_render = Inr \<lparr>task_id = 1, cancel = None\<rparr>, render_promise = None,
         cancelled = Never,
         laid_out = \<lparr>scrollHeight = 792, clientHeight = 792, scrollTop = 0,
                     scrollWidth = 800, clientWidth = 800, scrollLeft = 0\<rparr>\<rparr>
        (PdfViewer_mounted
           \<lparr>scrollHeight = 792, clientHeight = 792, scrollTop = 0,
            scrollWidth = 800, clientWidth = 800, scrollLeft = 0\<rparr>
           \<lparr>scrollHeight = 792, clientHeight = 792, scrollTop = 0,
            scrollWidth = 800, clientWidth = 800, scrollLeft = 0\<rparr>))
     = Some (None, Some Blank, [Object (Some ''InvalidPDFException'')])"
  using render_errors_are_caught [where env = "\<lparr>devicePixelRatio = 1, getDocument = Inl (Object (Some ''InvalidPDFException'')),
         getContext = True, page_render = Inr \<lparr>task_id = 1, cancel = None\<rparr>, render_promise = None,
         cancelled = Never,
         laid_out = \<lparr>scrollHeight = 792, clientHeight = 792, scrollTop = 0,
                     scrollWidth = 800, clientWidth = 800, scrollLeft = 0\<rparr>\<rparr>"
      and st = "(PdfViewer_mounted
           \<lparr>scrollHeight = 792, clientHeight = 792, scrollTop = 0,
            scrollWidth = 800, clientWidth = 800, scrollLeft = 0\<rparr>
           \<lparr>scrollHeight = 792, clientHeight = 792, scrollTop = 0,
            scrollWidth = 800, clientWidth = 800, scrollLeft = 0\<rparr>)"
      and error = "Object (Some ''InvalidPDFException'')"]
  by (simp add: renderPdf_def enter_def container_height_def PdfViewer_mounted_def
      cancel_previous_def try_body_def catch_block_def should_log_def)

subsection \<open>Calls that overlap\<close>

text \<open>
  The events of the page, applied to one call, give the call on its own: the pieces are
  the same.
\<close>

lemma single_call_agrees:
  assumes "ready env st" and "cancelled env = Never" and "pdfDocRef st = None"
    and "getDocument env = Inr (Inr page)" and "getContext env"
    and "page_render env = Inr task" and "render_promise env = None"
  shows "react_all [Call_renderPdf, Load_settles 0 (getDocument env),
                    Page_settles 0 env (Inr page), Render_settles 0 env (render_promise env)]
           \<lparr>viewer = st, in_flight = []\<rparr>
         = map_option (\<lambda>(escaped, st'). \<lparr>viewer = st', in_flight = [Ended]\<rparr>) (renderPdf env st)"
proof -
  define h where "h = container_height st"
  define s2 where "s2 = (cancel_previous st)\<lparr>pdfDocRef := Some (Inr page)\<rparr>"
  from assms(1) obtain cv0 where cv0: "canvasRef st = Some cv0"
    by (auto simp: ready_def)
  have e: "enter False st = Awaiting (cancel_previous st)"
    using assms(1) by (auto simp: ready_def enter_def Let_def split: option.splits)
  have r1: "react_all [Call_renderPdf, Load_settles 0 (getDocument env)] \<lparr>viewer = st, in_flight = []\<rparr>
      = Some \<lparr>viewer = s2, in_flight = [At_page h]\<rparr>"
    using assms(3,4) e
    by (simp add: h_def s2_def cancel_previous_fields after_load_def end_step_def settle_def)
  have rp: "renderPdf env st =
      (case rasterize env h page s2 of
         None \<Rightarrow> None
       | Some (None, st') \<Rightarrow> Some (None, st')
       | Some (Some error, st') \<Rightarrow> Some (None, catch_block error st'))"
    using assms(2,3,4) e
    by (simp add: renderPdf_def try_body_def after_load_def fetch_page_def h_def s2_def
        cancel_previous_fields)
  show ?thesis
  proof (cases "start_render False env h page s2")
    case None
    then show ?thesis
      using assms(2,3,4) e
      by (simp add: rp rasterize_def cancel_previous_fields after_load_def end_step_def settle_def
          h_def [symmetric] s2_def [symmetric])
  next
    case (Some s)
    have c2: "canvasRef s2 = Some cv0"
      by (simp add: s2_def cancel_previous_fields cv0)
    from Some c2 assms(5,6) obtain s3 where s3: "s = Awaiting s3"
      by (auto simp: start_render_def double_div_def js_div_def Let_def split: if_splits)
    show ?thesis
    proof (cases "finish_render False env s3")
      case None
      with Some s3 show ?thesis
        using assms(2,3,4,7) e
        by (simp add: rp rasterize_def cancel_previous_fields after_load_def end_step_def settle_def
            h_def [symmetric] s2_def [symmetric])
    next
      case (Some s')
      then obtain s4 where "s' = Returned s4"
        by (auto simp: finish_render_def Let_def)
      with Some \<open>start_render False env h page s2 = Some s\<close> s3 show ?thesis
        using assms(2,3,4,7) e
        by (simp add: rp rasterize_def cancel_previous_fields after_load_def end_step_def settle_def
            h_def [symmetric] s2_def [symmetric])
    qed
  qed
qed

text \<open>
  Claim C3. Whenever the render effect re-runs (on a change of url, zoom or container
  readiness, or on resize) it cancels the render session in flight before it starts a
  new one, so that at most one session is active per viewer and a cancelled session
  never writes to the canvas once a newer one has started presenting.

  The code does not keep this on a resize that arrives while an earlier call is still
  suspended at its document load. The events below are: the timer calls \<open>renderPdf\<close>
  (container 792 high); the window is resized (container 500 high) and \<open>handleResize\<close>
  calls \<open>renderPdf\<close> again; both loads and then both page fetches settle. The second
  call finds no task in \<open>renderTaskRef\<close> to cancel, and \<open>isCancelled\<close> is false for
  both calls. After the first call's page fetch its task 1 is in the ref and the canvas
  is 918 wide; after the second's, both calls are suspended at
  \<open>await renderTask.promise\<close>, task 2 has replaced task 1 in the ref, the canvas has
  been resized to 579, and \<open>cancel()\<close> has been called on no task.
\<close>

theorem resize_during_load_overlap:
  "map_option (\<lambda>r. (in_flight r, map_option task_id (renderTaskRef (viewer r)),
                     cancel_calls (viewer r), map_option canvas_width (canvasRef (viewer r))))
     (react_all
        [Call_renderPdf,
         Container_resized \<lparr>scrollHeight = 500, clientHeight = 500, scrollTop = 0,
                            scrollWidth = 800, clientWidth = 800, scrollLeft = 0\<rparr>,
         Call_renderPdf,
         Load_settles 0 (Inr (Inr (linear_page 612 792))),
         Load_settles 1 (Inr (Inr (linear_page 612 792))),
         Page_settles 0
           \<lparr>devicePixelRatio = 1, getDocument = Inr (Inr (linear_page 612 792)), getContext = True,
            page_render = Inr \<lparr>task_id = 1, cancel = None\<rparr>, render_promise = None,
            cancelled = Never,
            laid_out = \<lparr>scrollHeight = 500, clientHeight = 500, scrollTop = 0,
                        scrollWidth = 800, clientWidth = 800, scrollLeft = 0\<rparr>\<rparr>
           (Inr (linear_page 612 792))]
        \<lparr>viewer = PdfViewer_mounted
           \<lparr>scrollHeight = 792, clientHeight = 792, scrollTop = 0,
            scrollWidth = 800, clientWidth = 800, scrollLeft = 0\<rparr>
           \<lparr>scrollHeight = 792, clientHeight = 792, scrollTop = 0,
            scrollWidth = 800, clientWidth = 800, scrollLeft = 0\<rparr>,
         in_flight = []\<rparr>)
     = Some ([At_render, At_page 500], Some 1, [], Some 918)
   \<and> map_option (\<lambda>r. (in_flight r, map_option task_id (renderTaskRef (viewer r)),
                     cancel_calls (viewer r), map_option canvas_width (canvasRef (viewer r))))
     (react_all
        [Call_renderPdf,
         Container_resized \<lparr>scrollHeight = 500, clientHeight = 500, scrollTop = 0,
                            scrollWidth = 800, clientWidth = 800, scrollLeft = 0\<rparr>,
         Call_renderPdf,
         Load_settles 0 (Inr (Inr (linear_page 612 792))),
         Load_settles 1 (Inr (Inr (linear_page 612 792))),
         Page_settles 0
           \<lparr>devicePixelRatio = 1, getDocument = Inr (Inr (linear_page 612 792)), getContext = True,
            page_render = Inr \<lparr>task_id = 1, cancel = None\<rparr>, render_promise = None,
            cancelled = Never,
            laid_out = \<lparr>scrollHeight = 500, clientHeight = 500, scrollTop = 0,
                        scrollWidth = 800, clientWidth = 800, scrollLeft = 0\<rparr>\<rparr>
           (Inr (linear_page 612 792)),
         Page_settles 1
           \<lparr>devicePixelRatio = 1, getDocument = Inr (Inr (linear_page 612 792)), getContext = True,
            page_render = Inr \<lparr>task_id = 2, cancel = None\<rparr>, render_promise = None,
            cancelled = Never,
            laid_out = \<lparr>scrollHeight = 500, clientHeight = 500, scrollTop = 0,
                        scrollWidth = 800, clientWidth = 800, scrollLeft = 0\<rparr>\<rparr>
           (Inr (linear_page 612 792))]
        \<lparr>viewer = PdfViewer_mounted
           \<lparr>scrollHeight = 792, clientHeight = 792, scrollTop = 0,
            scrollWidth = 800, clientWidth = 800, scrollLeft = 0\<rparr>
           \<lparr>scrollHeight = 792, clientHeight = 792, scrollTop = 0,
            scrollWidth = 800, clientWidth = 800, scrollLeft = 0\<rparr>,
         in_flight = []\<rparr>)
     = Some ([At_render, At_render], Some 2, [], Some 579)"
  by (simp add: enter_def container_height_def PdfViewer_mounted_def cancel_previous_def
      after_load_def start_render_def end_step_def settle_def js_div_def Let_def linear_page_def
      double_times_def double_div_def)
    (simp add: double_arith)

end
